theory Spec2Isabelle
  imports Main "HOL-Library.Word"
begin

unbundle bit_operations_syntax

section \<open>Machine types and failures\<close>

text \<open>
  BitFunnel is built for 64-bit targets: \<^verbatim>\<open>size_t\<close>, \<^verbatim>\<open>ptrdiff_t\<close>, \<^verbatim>\<open>DocIndex\<close>,
  \<^verbatim>\<open>RowIndex\<close> and pointers are 64-bit words whose arithmetic wraps around.
\<close>

type_synonym size_t = "64 word"
type_synonym DocIndex = "64 word"
type_synonym DocId = "64 word"
type_synonym RowIndex = "64 word"
type_synonym Rank = nat
type_synonym ptr = "64 word"

definition nullptr :: ptr where
  "nullptr = 0"

definition sizeof_ptr :: size_t where
  "sizeof_ptr = 8"

text \<open>
  Everything the code can throw. \<open>ParseError\<close> derives from \<open>RecoverableError\<close> in the
  source and adds the position; \<open>std_length_error\<close> and \<open>std_out_of_range\<close> are what
  \<^verbatim>\<open>std::vector::reserve\<close> and \<^verbatim>\<open>std::vector::at\<close> throw; \<open>InvalidPointer\<close> stands for
  dereferencing a \<^verbatim>\<open>Slice*\<close> that points to no live Slice (undefined behaviour in C++,
  never reached from a well-formed state).
\<close>

datatype exception =
    RecoverableError string
  | FatalError string
  | ParseError string size_t
  | std_length_error
  | std_out_of_range
  | InvalidPointer

text \<open>
  Modelled from the spec: the macro \<^verbatim>\<open>LogAssertB\<close> (LoggerInterfaces/Logging.h) is not among
  the source files. The spec (section 7) classifies its uses (\<^verbatim>\<open>CommitDocument\<close> with
  \<^verbatim>\<open>commitPending == 0\<close>, a new Slice refusing its first allocation, a too small
  \<^verbatim>\<open>sliceBufferSize\<close>) as fatal assertions, distinct from \<^verbatim>\<open>RecoverableError\<close>.
  \<open>None\<close> means the assertion passed.
\<close>

definition LogAssertB :: "bool \<Rightarrow> string \<Rightarrow> exception option" where
  "LogAssertB condition message = (if condition then None else Some (FatalError message))"


section \<open>Slice\<close>

text \<open>
  The data members of \<^verbatim>\<open>class Slice\<close> that the constructor initialises. The reference
  \<^verbatim>\<open>m_shard\<close> is passed explicitly where a member function needs the shard, and the mutex
  \<^verbatim>\<open>m_docIndexLock\<close> has no sequential content.
\<close>

record Slice =
  m_temporaryNextDocIndex :: DocIndex
  m_capacity :: DocIndex
  m_refCount :: "32 word"
  m_buffer :: ptr
  m_unallocatedCount :: DocIndex
  m_commitPendingCount :: DocIndex
  m_expiredCount :: DocIndex

text \<open>
  The member initialisers of \<^verbatim>\<open>Slice::Slice(Shard&)\<close>, given the shard's slice capacity and
  the buffer its allocator returned.
\<close>

definition Slice_members :: "DocIndex \<Rightarrow> ptr \<Rightarrow> Slice" where
  "Slice_members sliceCapacity buffer =
     \<lparr> m_temporaryNextDocIndex = 0,
       m_capacity = sliceCapacity,
       m_refCount = 1,
       m_buffer = buffer,
       m_unallocatedCount = sliceCapacity,
       m_commitPendingCount = 0,
       m_expiredCount = 0 \<rparr>"

text \<open>
  \<^verbatim>\<open>bool Slice::TryAllocateDocument(size_t& index)\<close>: \<open>None\<close> is the return value
  \<^verbatim>\<open>false\<close> (the reference \<^verbatim>\<open>index\<close> is not written), \<open>Some i\<close> is \<^verbatim>\<open>true\<close> with
  \<^verbatim>\<open>index = i\<close>.
\<close>

definition TryAllocateDocument :: "Slice \<Rightarrow> DocIndex option \<times> Slice" where
  "TryAllocateDocument s =
     (if m_unallocatedCount s = 0 then (None, s)
      else (Some (m_capacity s - m_unallocatedCount s),
            s\<lparr> m_unallocatedCount := m_unallocatedCount s - 1,
               m_commitPendingCount := m_commitPendingCount s + 1 \<rparr>))"

text \<open>
  A member function that can throw returns its outcome (\<open>Inl\<close> the exception, \<open>Inr\<close> the
  return value) together with the object as the call leaves it, so that what a failed call
  has or has not changed can be stated.

  \<^verbatim>\<open>bool Slice::CommitDocument()\<close>. The call \<^verbatim>\<open>GetShard().TemporaryRecordDocument()\<close> only
  notifies the shard's document frequency table builder and touches no Slice member.
\<close>

definition CommitDocument :: "Slice \<Rightarrow> (exception + bool) \<times> Slice" where
  "CommitDocument s =
     (case LogAssertB (m_commitPendingCount s > 0)
             ''CommitDocument with m_commitPendingCount == 0'' of
        Some e \<Rightarrow> (Inl e, s)
      | None \<Rightarrow>
          (let s' = s\<lparr> m_commitPendingCount := m_commitPendingCount s - 1 \<rparr>
           in (Inr (m_unallocatedCount s' + m_commitPendingCount s' = 0), s')))"

text \<open>\<^verbatim>\<open>bool Slice::ExpireDocument()\<close>.\<close>

definition ExpireDocument :: "Slice \<Rightarrow> (exception + bool) \<times> Slice" where
  "ExpireDocument s =
     (let committedCount = m_capacity s - m_unallocatedCount s - m_commitPendingCount s
      in case LogAssertB (m_expiredCount s < committedCount)
                ''Slice expired more documents than committed.'' of
           Some e \<Rightarrow> (Inl e, s)
         | None \<Rightarrow>
             (let s' = s\<lparr> m_expiredCount := m_expiredCount s + 1 \<rparr>
              in (Inr (m_expiredCount s' = m_capacity s'), s')))"

definition IsExpired :: "Slice \<Rightarrow> bool" where
  "IsExpired s = (m_expiredCount s = m_capacity s)"

definition GetSliceBuffer :: "Slice \<Rightarrow> ptr" where
  "GetSliceBuffer s = m_buffer s"




section \<open>Schema, term table and descriptors\<close>

text \<open>
  Modelled from the spec: the collaborators of the ingestion core (\<^verbatim>\<open>Term\<close>, \<^verbatim>\<open>RowId\<close>,
  \<^verbatim>\<open>ITermTable\<close>, \<^verbatim>\<open>IDocumentDataSchema\<close>) are interfaces whose declarations and
  implementations are not among the source files. They carry the data the spec gives them
  (sections 3, 4.2 and 6).
\<close>

record Term =
  hash :: "64 word"
  streamId :: nat
  gramSize :: nat
  rank :: Rank

record RowId =
  GetRank :: Rank
  GetIndex :: RowIndex

text \<open>
  \<^verbatim>\<open>ITermTable\<close> with the members the core consumes. \<^verbatim>\<open>RowIdSequence(term, termTable)\<close>
  enumerates the rows of a term; the table carries that enumeration.
\<close>

record ITermTable =
  GetMaxRankUsed :: Rank
  GetTotalRowCount :: "Rank \<Rightarrow> RowIndex"
  GetDocumentActiveTerm :: Term
  rows_of_term :: "Term \<Rightarrow> RowId list"

definition RowIdSequence :: "Term \<Rightarrow> ITermTable \<Rightarrow> RowId list" where
  "RowIdSequence term termTable = rows_of_term termTable term"

text \<open>
  \<^verbatim>\<open>IDocumentDataSchema\<close>: the number of variable-size blob slots and the byte length
  of each fixed-size blob slot.
\<close>

record IDocumentDataSchema =
  variableSizeBlobCount :: size_t
  fixedSizeBlobSizes :: "size_t list"

text \<open>
  Modelled from the spec: the constant \<^verbatim>\<open>c_maxRankValue\<close> is declared outside the source
  files; section 3 gives the maximum rank as 6.
\<close>

definition c_maxRankValue :: Rank where
  "c_maxRankValue = 6"

text \<open>
  Modelled from the spec: \<^verbatim>\<open>Row::DocumentsInRank0Row\<close> is not among the source files.
  Section 3 gives \<^verbatim>\<open>DocumentsInRank0Row(1, maxRankUsed) = 2^maxRank * 64\<close>: a rank-0 row
  packs 64 documents per 8-byte word, and a bit of rank \<open>r\<close> covers \<open>2^r\<close> documents.
\<close>

definition DocumentsInRank0Row :: "size_t \<Rightarrow> Rank \<Rightarrow> DocIndex" where
  "DocumentsInRank0Row rowCount maxRank = rowCount * (2 ^ maxRank * 64)"

text \<open>
  Modelled from the spec: \<^verbatim>\<open>DocTableDescriptor\<close> is not among the source files. Section
  4.2: the record of a document takes the sum of the fixed-blob sizes plus one pointer slot
  per variable-size blob, and the region takes \<^verbatim>\<open>capacity * recordSize\<close> bytes.
\<close>

record DocTableDescriptor =
  dt_capacity :: DocIndex
  dt_recordSize :: size_t
  dt_baseOffset :: size_t

definition DocTable_recordSize :: "IDocumentDataSchema \<Rightarrow> size_t" where
  "DocTable_recordSize schema =
     sum_list (fixedSizeBlobSizes schema) + sizeof_ptr * variableSizeBlobCount schema"

definition DocTableDescriptor_GetBufferSize :: "DocIndex \<Rightarrow> IDocumentDataSchema \<Rightarrow> size_t" where
  "DocTableDescriptor_GetBufferSize capacity schema = capacity * DocTable_recordSize schema"

definition DocTableDescriptor_ctor ::
    "DocIndex \<Rightarrow> IDocumentDataSchema \<Rightarrow> size_t \<Rightarrow> DocTableDescriptor" where
  "DocTableDescriptor_ctor capacity schema baseOffset =
     \<lparr> dt_capacity = capacity,
       dt_recordSize = DocTable_recordSize schema,
       dt_baseOffset = baseOffset \<rparr>"

text \<open>
  Modelled from the spec: \<^verbatim>\<open>RowTableDescriptor\<close> is not among the source files. Section
  4.2: a row of rank \<open>r\<close> takes \<^verbatim>\<open>capacity / (8 * 2^r)\<close> bytes, row \<open>row\<close> starts at
  \<^verbatim>\<open>baseOffset + row * rowBytes\<close>, and the rows of a table lie one after the other, so
  that the table takes \<^verbatim>\<open>rowCount * rowBytes\<close> bytes.
\<close>

record RowTableDescriptor =
  rt_capacity :: DocIndex
  rt_rowCount :: RowIndex
  rt_rank :: Rank
  rt_baseOffset :: size_t

definition BytesInRow :: "DocIndex \<Rightarrow> Rank \<Rightarrow> size_t" where
  "BytesInRow capacity r = capacity div (8 * 2 ^ r)"

definition RowTableDescriptor_GetBufferSize :: "DocIndex \<Rightarrow> RowIndex \<Rightarrow> Rank \<Rightarrow> size_t" where
  "RowTableDescriptor_GetBufferSize capacity rowCount r = rowCount * BytesInRow capacity r"

definition RowTableDescriptor_ctor ::
    "DocIndex \<Rightarrow> RowIndex \<Rightarrow> Rank \<Rightarrow> size_t \<Rightarrow> RowTableDescriptor" where
  "RowTableDescriptor_ctor capacity rowCount r baseOffset =
     \<lparr> rt_capacity = capacity, rt_rowCount = rowCount, rt_rank = r,
       rt_baseOffset = baseOffset \<rparr>"

definition GetRowOffset :: "RowTableDescriptor \<Rightarrow> RowIndex \<Rightarrow> size_t" where
  "GetRowOffset rt row = rt_baseOffset rt + row * BytesInRow (rt_capacity rt) (rt_rank rt)"


section \<open>Shard: the layout of a slice buffer\<close>

text \<open>
  The two descriptor members that \<^verbatim>\<open>Shard::InitializeDescriptors\<close> fills in when it is
  given a shard: \<^verbatim>\<open>m_docTable\<close> (a \<^verbatim>\<open>unique_ptr\<close>, \<open>None\<close> while empty) and
  \<^verbatim>\<open>m_rowTables\<close>. The record of a Shard extends this one.
\<close>

record Descriptors =
  m_docTable :: "DocTableDescriptor option"
  m_rowTables :: "RowTableDescriptor list"

text \<open>
  One round of the loop \<^verbatim>\<open>for (Rank r = 0; r <= c_maxRankValue; ++r)\<close> of
  \<^verbatim>\<open>InitializeDescriptors\<close>; the state is \<^verbatim>\<open>currentOffset\<close> and the shard's descriptors
  (\<open>None\<close> for \<^verbatim>\<open>shard == nullptr\<close>).
\<close>

definition InitializeDescriptors_rank ::
    "DocIndex \<Rightarrow> ITermTable \<Rightarrow> Rank \<Rightarrow> size_t \<times> 'a Descriptors_scheme option
       \<Rightarrow> size_t \<times> 'a Descriptors_scheme option" where
  "InitializeDescriptors_rank sliceCapacity termTable r st =
     (let currentOffset = fst st;
          shard = snd st;
          rowCount = GetTotalRowCount termTable r;
          shard' = map_option
            (\<lambda>d. d\<lparr> m_rowTables := m_rowTables d @
                        [RowTableDescriptor_ctor sliceCapacity rowCount r currentOffset] \<rparr>)
            shard
      in (currentOffset + RowTableDescriptor_GetBufferSize sliceCapacity rowCount r, shard'))"

text \<open>
  \<^verbatim>\<open>size_t Shard::InitializeDescriptors(Shard* shard, DocIndex sliceCapacity, schema,
  termTable)\<close>: returns the buffer size the layout needs and the descriptors of the shard.
\<close>

definition InitializeDescriptors ::
    "'a Descriptors_scheme option \<Rightarrow> DocIndex \<Rightarrow> IDocumentDataSchema \<Rightarrow> ITermTable
       \<Rightarrow> size_t \<times> 'a Descriptors_scheme option" where
  "InitializeDescriptors shard sliceCapacity docDataSchema termTable =
     (let currentOffset = 0;
          shard1 = map_option
            (\<lambda>d. d\<lparr> m_docTable :=
                        Some (DocTableDescriptor_ctor sliceCapacity docDataSchema currentOffset) \<rparr>)
            shard;
          currentOffset = currentOffset
            + DocTableDescriptor_GetBufferSize sliceCapacity docDataSchema;
          st = fold (InitializeDescriptors_rank sliceCapacity termTable)
                 [0..<Suc c_maxRankValue] (currentOffset, shard1);
          currentOffset = fst st + sizeof_ptr;
          sliceBufferSize = currentOffset
      in (sliceBufferSize, snd st))"

text \<open>The argument \<^verbatim>\<open>shard == nullptr\<close> of \<^verbatim>\<open>InitializeDescriptors\<close>.\<close>

abbreviation (input) no_shard :: "Descriptors option" where
  "no_shard \<equiv> None"

text \<open>
  The loop \<^verbatim>\<open>for (;;)\<close> of \<^verbatim>\<open>Shard::GetCapacityForByteSize\<close>, from a value of
  \<^verbatim>\<open>capacity\<close> on. The loop has no bound of its own: \<open>None\<close> is a run that never leaves it.
\<close>

partial_function (option) GetCapacityForByteSize_loop ::
    "size_t \<Rightarrow> IDocumentDataSchema \<Rightarrow> ITermTable \<Rightarrow> DocIndex \<Rightarrow> DocIndex option" where
  "GetCapacityForByteSize_loop bufferSizeInBytes schema termTable capacity =
     (let newSuggestedCapacity =
            capacity + DocumentsInRank0Row 1 (GetMaxRankUsed termTable);
          newBufferSize =
            fst (InitializeDescriptors no_shard newSuggestedCapacity schema termTable)
      in if newBufferSize > bufferSizeInBytes then Some capacity
         else GetCapacityForByteSize_loop bufferSizeInBytes schema termTable
                newSuggestedCapacity)"

text \<open>
  \<^verbatim>\<open>DocIndex Shard::GetCapacityForByteSize(size_t bufferSizeInBytes, schema, termTable)\<close>:
  \<open>None\<close> when the search never returns, otherwise the capacity or the failed assertion.
\<close>

definition GetCapacityForByteSize ::
    "size_t \<Rightarrow> IDocumentDataSchema \<Rightarrow> ITermTable \<Rightarrow> (exception + DocIndex) option" where
  "GetCapacityForByteSize bufferSizeInBytes schema termTable =
     (case GetCapacityForByteSize_loop bufferSizeInBytes schema termTable 0 of
        None \<Rightarrow> None
      | Some capacity \<Rightarrow>
          (case LogAssertB (capacity > 0) ''Shard with 0 capacity.'' of
             Some e \<Rightarrow> Some (Inl e)
           | None \<Rightarrow> Some (Inr capacity)))"


section \<open>Memory\<close>

text \<open>
  Slice buffers are raw memory: a byte at every address. A region of \<open>len\<close> bytes from
  \<open>start\<close> holds the addresses \<open>a\<close> with \<open>a - start < len\<close>. \<open>memset\<close> is the C library
  function; a pointer is stored as its eight bytes, least significant first.
\<close>

type_synonym memory = "ptr \<Rightarrow> 8 word"

definition memset :: "memory \<Rightarrow> ptr \<Rightarrow> 8 word \<Rightarrow> size_t \<Rightarrow> memory" where
  "memset mem start v len = (\<lambda>a. if a - start < len then v else mem a)"

fun bytes_of_word :: "nat \<Rightarrow> 64 word \<Rightarrow> 8 word list" where
  "bytes_of_word 0 w = []"
| "bytes_of_word (Suc n) w = ucast w # bytes_of_word n (drop_bit 8 w)"


definition pointer_bytes :: "ptr \<Rightarrow> 8 word list" where
  "pointer_bytes p = bytes_of_word (unat sizeof_ptr) p"


definition store_pointer :: "memory \<Rightarrow> ptr \<Rightarrow> ptr \<Rightarrow> memory" where
  "store_pointer mem a p =
     (\<lambda>x. if x - a < sizeof_ptr then pointer_bytes p ! unat (x - a) else mem x)"



section \<open>Row and document tables in a slice buffer\<close>

text \<open>
  Modelled from the spec: the accessors of \<^verbatim>\<open>RowTableDescriptor\<close> and
  \<^verbatim>\<open>DocTableDescriptor\<close> are not among the source files. Section 4.2: the bit of
  \<^verbatim>\<open>docIndex\<close> in a row of rank \<open>r\<close> is bit \<^verbatim>\<open>(docIndex >> r) & 7\<close> of the byte
  \<^verbatim>\<open>(docIndex >> r) / 8\<close> of the row; the accessors are pure offset arithmetic over the
  buffer; \<^verbatim>\<open>DocTableDescriptor::Initialize\<close> zeroes its region, and
  \<^verbatim>\<open>RowTableDescriptor::Initialize\<close> zeroes its region and then sets every bit of every
  row of the document-active term (a row belongs to the table of its own rank).
\<close>

definition bit_address :: "RowTableDescriptor \<Rightarrow> ptr \<Rightarrow> RowIndex \<Rightarrow> DocIndex \<Rightarrow> ptr" where
  "bit_address rt sliceBuffer row docIndex =
     sliceBuffer + GetRowOffset rt row + drop_bit (rt_rank rt) docIndex div 8"

definition bit_number :: "RowTableDescriptor \<Rightarrow> DocIndex \<Rightarrow> nat" where
  "bit_number rt docIndex = unat (drop_bit (rt_rank rt) docIndex AND 7)"

definition SetBit ::
    "RowTableDescriptor \<Rightarrow> ptr \<Rightarrow> RowIndex \<Rightarrow> DocIndex \<Rightarrow> memory \<Rightarrow> memory" where
  "SetBit rt sliceBuffer row docIndex mem =
     (let a = bit_address rt sliceBuffer row docIndex
      in mem (a := mem a OR push_bit (bit_number rt docIndex) 1))"

definition ClearBit ::
    "RowTableDescriptor \<Rightarrow> ptr \<Rightarrow> RowIndex \<Rightarrow> DocIndex \<Rightarrow> memory \<Rightarrow> memory" where
  "ClearBit rt sliceBuffer row docIndex mem =
     (let a = bit_address rt sliceBuffer row docIndex
      in mem (a := mem a AND NOT (push_bit (bit_number rt docIndex) 1)))"

definition GetBit ::
    "RowTableDescriptor \<Rightarrow> ptr \<Rightarrow> RowIndex \<Rightarrow> DocIndex \<Rightarrow> memory \<Rightarrow> bool" where
  "GetBit rt sliceBuffer row docIndex mem =
     bit (mem (bit_address rt sliceBuffer row docIndex)) (bit_number rt docIndex)"

definition DocTableDescriptor_Initialize :: "DocTableDescriptor \<Rightarrow> ptr \<Rightarrow> memory \<Rightarrow> memory" where
  "DocTableDescriptor_Initialize dt sliceBuffer mem =
     memset mem (sliceBuffer + dt_baseOffset dt) 0 (dt_capacity dt * dt_recordSize dt)"

definition RowTableDescriptor_Initialize ::
    "RowTableDescriptor \<Rightarrow> ptr \<Rightarrow> ITermTable \<Rightarrow> memory \<Rightarrow> memory" where
  "RowTableDescriptor_Initialize rt sliceBuffer termTable mem =
     fold (\<lambda>row m.
             if GetRank row = rt_rank rt
             then memset m (sliceBuffer + GetRowOffset rt (GetIndex row)) 255
                    (BytesInRow (rt_capacity rt) (rt_rank rt))
             else m)
       (RowIdSequence (GetDocumentActiveTerm termTable) termTable)
       (memset mem (sliceBuffer + rt_baseOffset rt) 0
          (RowTableDescriptor_GetBufferSize (rt_capacity rt) (rt_rowCount rt) (rt_rank rt)))"


section \<open>Shard\<close>

text \<open>
  Modelled from the spec: \<^verbatim>\<open>DocumentFrequencyTableBuilder\<close> is not among the source
  files. Section 4.4 says that \<^verbatim>\<open>AddPosting\<close> records the term with it; the model keeps
  the terms and the number of documents it was told of.
\<close>

record DocumentFrequencyTableBuilder =
  terms_recorded :: "Term list"
  documents_entered :: nat

definition OnTerm :: "Term \<Rightarrow> DocumentFrequencyTableBuilder \<Rightarrow> DocumentFrequencyTableBuilder" where
  "OnTerm term b = b\<lparr> terms_recorded := terms_recorded b @ [term] \<rparr>"

definition OnDocumentEnter :: "DocumentFrequencyTableBuilder \<Rightarrow> DocumentFrequencyTableBuilder" where
  "OnDocumentEnter b = b\<lparr> documents_entered := Suc (documents_entered b) \<rparr>"

text \<open>
  The members of \<^verbatim>\<open>class Shard\<close>, followed by what a shard reaches through its
  references and pointers: the queue of its recycler (\<^verbatim>\<open>IRecycler::ScheduleRecyling\<close>
  appends an item, here the Slice and the slice-buffer vector of a
  \<^verbatim>\<open>DeferredSliceListDelete\<close>; modelled from section 4.6 of the spec), the live Slice
  objects by address, and the memory that holds the slice buffers. The vector that
  \<^verbatim>\<open>m_sliceBuffers\<close> points to is kept by value.
\<close>

record Shard = Descriptors +
  m_termTable :: ITermTable
  m_documentActiveRowId :: RowId
  m_activeSlice :: ptr
  m_sliceBuffers :: "ptr list"
  m_sliceCapacity :: DocIndex
  m_sliceBufferSize :: size_t
  m_docFrequencyTableBuilder :: "DocumentFrequencyTableBuilder option"
  m_recycler :: "(ptr \<times> ptr list) list"
  slices :: "ptr \<rightharpoonup> Slice"
  memory :: memory

record DocumentHandleInternal =
  m_slice :: ptr
  m_index :: DocIndex
  m_id :: DocId

text \<open>\<^verbatim>\<open>static RowId RowIdForActiveDocument(ITermTable const & termTable)\<close>.\<close>

definition RowIdForActiveDocument :: "ITermTable \<Rightarrow> exception + RowId" where
  "RowIdForActiveDocument termTable =
     (case RowIdSequence (GetDocumentActiveTerm termTable) termTable of
        [] \<Rightarrow> Inl (RecoverableError ''RowIdForDeletedDocument: expected at least one row.'')
      | rowId # rest \<Rightarrow>
          if GetRank rowId \<noteq> 0
          then Inl (RecoverableError
                 ''RowIdForDeletedDocument: soft deleted row must be rank 0..'')
          else if rest \<noteq> []
          then Inl (RecoverableError
                 ''RowIdForDeletedDocument: expected no more than one row.'')
          else Inr rowId)"

text \<open>
  \<^verbatim>\<open>Shard::Shard\<close>, given the queue of the recycler and the memory as they are. \<open>None\<close>
  when the capacity search never returns.
\<close>

definition Shard_ctor ::
    "(ptr \<times> ptr list) list \<Rightarrow> memory \<Rightarrow> ITermTable \<Rightarrow> IDocumentDataSchema \<Rightarrow> size_t
       \<Rightarrow> (exception + Shard) option" where
  "Shard_ctor recycler mem termTable docDataSchema sliceBufferSize =
     (case RowIdForActiveDocument termTable of
        Inl e \<Rightarrow> Some (Inl e)
      | Inr rowId \<Rightarrow>
          (case GetCapacityForByteSize sliceBufferSize docDataSchema termTable of
             None \<Rightarrow> None
           | Some (Inl e) \<Rightarrow> Some (Inl e)
           | Some (Inr capacity) \<Rightarrow>
               (let this = \<lparr> m_docTable = None, m_rowTables = [],
                             m_termTable = termTable,
                             m_documentActiveRowId = rowId,
                             m_activeSlice = nullptr,
                             m_sliceBuffers = [],
                             m_sliceCapacity = capacity,
                             m_sliceBufferSize = sliceBufferSize,
                             m_docFrequencyTableBuilder =
                               Some \<lparr> terms_recorded = [], documents_entered = 0 \<rparr>,
                             m_recycler = recycler,
                             slices = Map.empty,
                             memory = mem \<rparr>;
                    r = InitializeDescriptors (Some this) capacity docDataSchema termTable;
                    bufferSize = fst r
                in case LogAssertB (bufferSize \<le> sliceBufferSize)
                          ''Shard sliceBufferSize too small.'' of
                     Some e \<Rightarrow> Some (Inl e)
                   | None \<Rightarrow>
                       (case snd r of
                          None \<Rightarrow> Some (Inl InvalidPointer)
                        | Some shard \<Rightarrow> Some (Inr shard)))))"

definition GetSliceCapacity :: "Shard \<Rightarrow> DocIndex" where
  "GetSliceCapacity shard = m_sliceCapacity shard"

definition GetTermTable :: "Shard \<Rightarrow> ITermTable" where
  "GetTermTable shard = m_termTable shard"

text \<open>\<^verbatim>\<open>ptrdiff_t Shard::GetSlicePtrOffset() const\<close>.\<close>

definition GetSlicePtrOffset :: "Shard \<Rightarrow> size_t" where
  "GetSlicePtrOffset shard = m_sliceBufferSize shard - sizeof_ptr"

text \<open>
  \<^verbatim>\<open>Shard::GetDocTable\<close> dereferences \<^verbatim>\<open>m_docTable\<close>; \<^verbatim>\<open>Shard::GetRowTable\<close> is
  \<^verbatim>\<open>m_rowTables.at(rank)\<close>, which throws \<^verbatim>\<open>std::out_of_range\<close>.
\<close>

definition GetDocTable :: "Shard \<Rightarrow> exception + DocTableDescriptor" where
  "GetDocTable shard =
     (case m_docTable shard of None \<Rightarrow> Inl InvalidPointer | Some dt \<Rightarrow> Inr dt)"

definition GetRowTable :: "Shard \<Rightarrow> Rank \<Rightarrow> exception + RowTableDescriptor" where
  "GetRowTable shard r =
     (if r < length (m_rowTables shard) then Inr (m_rowTables shard ! r)
      else Inl std_out_of_range)"


section \<open>The back-pointer of a slice buffer\<close>

text \<open>
  \<^verbatim>\<open>Slice*& Slice::GetSlicePointer(void* sliceBuffer, ptrdiff_t slicePtrOffset)\<close> is a
  reference to the pointer in the buffer: the address of the slot. Reading through it is
  \<^verbatim>\<open>GetSliceFromBuffer\<close>, assigning to it is \<^verbatim>\<open>Slice::Initialize\<close>.
\<close>

definition GetSlicePointer :: "ptr \<Rightarrow> size_t \<Rightarrow> ptr" where
  "GetSlicePointer sliceBuffer slicePtrOffset = sliceBuffer + slicePtrOffset"


definition Slice_Initialize :: "Shard \<Rightarrow> ptr \<Rightarrow> Slice \<Rightarrow> memory \<Rightarrow> memory" where
  "Slice_Initialize shard this s mem =
     store_pointer mem (GetSlicePointer (m_buffer s) (GetSlicePtrOffset shard)) this"

text \<open>
  The loop \<^verbatim>\<open>for (Rank r = 0; r <= c_maxRankValue; ++r)\<close> of the constructor of Slice over
  the ranks still to do.
\<close>

fun Slice_ctor_rowTables ::
    "Shard \<Rightarrow> ptr \<Rightarrow> Rank list \<Rightarrow> memory \<Rightarrow> exception option \<times> memory" where
  "Slice_ctor_rowTables shard buffer [] mem = (None, mem)"
| "Slice_ctor_rowTables shard buffer (r # rs) mem =
     (case GetRowTable shard r of
        Inl e \<Rightarrow> (Some e, mem)
      | Inr rt \<Rightarrow>
          Slice_ctor_rowTables shard buffer rs
            (RowTableDescriptor_Initialize rt buffer (GetTermTable shard) mem))"

text \<open>
  \<^verbatim>\<open>Slice::Slice(Shard& shard)\<close> for the object at address \<open>this\<close>, where \<open>buffer\<close> is what
  \<^verbatim>\<open>shard.AllocateSliceBuffer()\<close> returned (the allocator is not among the source files).
  The result is the exception or the members of the new Slice, and the shard with the
  memory as the constructor leaves it.
\<close>

definition Slice_ctor :: "ptr \<Rightarrow> ptr \<Rightarrow> Shard \<Rightarrow> (exception + Slice) \<times> Shard" where
  "Slice_ctor this buffer shard =
     (let s = Slice_members (GetSliceCapacity shard) buffer;
          mem1 = Slice_Initialize shard this s (memory shard)
      in case GetDocTable shard of
           Inl e \<Rightarrow> (Inl e, shard\<lparr> memory := mem1 \<rparr>)
         | Inr dt \<Rightarrow>
             (let mem2 = DocTableDescriptor_Initialize dt (m_buffer s) mem1;
                  r = Slice_ctor_rowTables shard (m_buffer s) [0..<Suc c_maxRankValue] mem2
              in case fst r of
                   Some e \<Rightarrow> (Inl e, shard\<lparr> memory := snd r \<rparr>)
                 | None \<Rightarrow> (Inr s, shard\<lparr> memory := snd r \<rparr>)))"


text \<open>
  The layout of a shard keeps the trailing pointer of a slice buffer clear: the buffer has
  room for the pointer, and every region that the constructor of a Slice initialises (the
  document table, each row table and each row of the document-active term) ends at or
  before \<^verbatim>\<open>GetSlicePtrOffset()\<close>. The constructor of Shard asserts it in the form
  \<^verbatim>\<open>bufferSize <= sliceBufferSize\<close>. Offsets and sizes are read as numbers, so that a
  region that would wrap around the address space does not count as fitting.
\<close>

definition region_below :: "size_t \<Rightarrow> size_t \<Rightarrow> size_t \<Rightarrow> bool" where
  "region_below base len limit = (unat base + unat len \<le> unat limit)"

definition row_table_fits :: "ITermTable \<Rightarrow> size_t \<Rightarrow> RowTableDescriptor \<Rightarrow> bool" where
  "row_table_fits termTable limit rt =
     (region_below (rt_baseOffset rt)
        (RowTableDescriptor_GetBufferSize (rt_capacity rt) (rt_rowCount rt) (rt_rank rt)) limit
      \<and> list_all
          (\<lambda>row. if GetRank row = rt_rank rt
                  then region_below (GetRowOffset rt (GetIndex row))
                         (BytesInRow (rt_capacity rt) (rt_rank rt)) limit
                  else True)
          (RowIdSequence (GetDocumentActiveTerm termTable) termTable))"

definition layout_fits :: "Shard \<Rightarrow> bool" where
  "layout_fits shard =
     (sizeof_ptr \<le> m_sliceBufferSize shard
      \<and> (case m_docTable shard of
            None \<Rightarrow> True
          | Some dt \<Rightarrow>
              region_below (dt_baseOffset dt) (dt_capacity dt * dt_recordSize dt)
                (GetSlicePtrOffset shard))
      \<and> list_all (row_table_fits (m_termTable shard) (GetSlicePtrOffset shard))
           (m_rowTables shard))"


section \<open>Shard: allocating documents and recycling slices\<close>

text \<open>
  \<^verbatim>\<open>void Shard::CreateNewActiveSlice()\<close>, where \<open>newSlice\<close> is the address
  \<^verbatim>\<open>new Slice(*this)\<close> returns and \<open>buffer\<close> the buffer the allocator hands to it.
\<close>

definition CreateNewActiveSlice :: "ptr \<Rightarrow> ptr \<Rightarrow> Shard \<Rightarrow> exception option \<times> Shard" where
  "CreateNewActiveSlice newSlice buffer shard =
     (case Slice_ctor newSlice buffer shard of
        (Inl e, shard') \<Rightarrow> (Some e, shard')
      | (Inr s, shard1) \<Rightarrow>
          (let shard2 = shard1\<lparr> slices := (slices shard1)(newSlice \<mapsto> s) \<rparr>;
               oldSlices = m_sliceBuffers shard2;
               newSlices = oldSlices @ [GetSliceBuffer s];
               shard3 = shard2\<lparr> m_sliceBuffers := newSlices, m_activeSlice := newSlice \<rparr>
           in (None, shard3\<lparr> m_recycler := m_recycler shard3 @ [(nullptr, oldSlices)] \<rparr>)))"

text \<open>
  \<^verbatim>\<open>slice->TryAllocateDocument(index)\<close> through a pointer: on the Slice at that address.
\<close>

definition TryAllocateDocument_at ::
    "ptr \<Rightarrow> Shard \<Rightarrow> (exception + DocIndex option) \<times> Shard" where
  "TryAllocateDocument_at p shard =
     (case slices shard p of
        None \<Rightarrow> (Inl InvalidPointer, shard)
      | Some s \<Rightarrow>
          (let r = TryAllocateDocument s
           in (Inr (fst r), shard\<lparr> slices := (slices shard)(p \<mapsto> snd r) \<rparr>)))"

text \<open>
  \<^verbatim>\<open>DocumentHandleInternal Shard::AllocateDocument(DocId id)\<close> (the parameter \<^verbatim>\<open>id\<close> is
  \<open>docId\<close> here). The condition
  \<^verbatim>\<open>m_activeSlice == nullptr || !m_activeSlice->TryAllocateDocument(index)\<close> calls the
  Slice only when the pointer is not null.
\<close>

definition AllocateDocument ::
    "ptr \<Rightarrow> ptr \<Rightarrow> DocId \<Rightarrow> Shard \<Rightarrow> (exception + DocumentHandleInternal) \<times> Shard" where
  "AllocateDocument newSlice buffer docId shard =
     (case (if m_activeSlice shard = nullptr then (Inr None, shard)
            else TryAllocateDocument_at (m_activeSlice shard) shard) of
        (Inl e, shard') \<Rightarrow> (Inl e, shard')
      | (Inr (Some index), shard') \<Rightarrow>
          (Inr \<lparr> m_slice = m_activeSlice shard', m_index = index, m_id = docId \<rparr>, shard')
      | (Inr None, shard1) \<Rightarrow>
          (case CreateNewActiveSlice newSlice buffer shard1 of
             (Some e, shard') \<Rightarrow> (Inl e, shard')
           | (None, shard2) \<Rightarrow>
               (case TryAllocateDocument_at (m_activeSlice shard2) shard2 of
                  (Inl e, shard') \<Rightarrow> (Inl e, shard')
                | (Inr r, shard3) \<Rightarrow>
                    (case LogAssertB (r \<noteq> None) ''Newly allocated slice has no space.'' of
                       Some e \<Rightarrow> (Inl e, shard3)
                     | None \<Rightarrow>
                         (case r of
                            None \<Rightarrow> (Inl InvalidPointer, shard3)
                          | Some index \<Rightarrow>
                              (Inr \<lparr> m_slice = m_activeSlice shard3, m_index = index,
                                     m_id = docId \<rparr>, shard3))))))"

text \<open>
  \<^verbatim>\<open>void Shard::RecycleSlice(Slice& slice)\<close> for the Slice at address \<open>slicePtr\<close>. The call
  \<^verbatim>\<open>newSlices->reserve(m_sliceBuffers.load()->size() - 1)\<close> computes in \<^verbatim>\<open>size_t\<close>: for
  an empty vector it asks for \<^verbatim>\<open>SIZE_MAX\<close> elements, and \<^verbatim>\<open>reserve\<close> throws
  \<^verbatim>\<open>std::length_error\<close>.
\<close>

definition RecycleSlice :: "ptr \<Rightarrow> Shard \<Rightarrow> exception option \<times> Shard" where
  "RecycleSlice slicePtr shard =
     (case slices shard slicePtr of
        None \<Rightarrow> (Some InvalidPointer, shard)
      | Some s \<Rightarrow>
          if \<not> IsExpired s
          then (Some (RecoverableError ''Slice being recycled has not been fully expired''),
                shard)
          else if m_sliceBuffers shard = []
          then (Some std_length_error, shard)
          else
            (let newSlices = filter (\<lambda>it. it \<noteq> GetSliceBuffer s) (m_sliceBuffers shard)
             in if length (m_sliceBuffers shard) \<noteq> length newSlices + 1
                then (Some (RecoverableError
                   ''Slice buffer to be removed is not found in the active slice buffers list''),
                      shard)
                else
                  (let oldSlices = m_sliceBuffers shard;
                       shard1 = shard\<lparr> m_sliceBuffers := newSlices \<rparr>;
                       shard2 = (if m_activeSlice shard1 = slicePtr
                                 then shard1\<lparr> m_activeSlice := nullptr \<rparr> else shard1)
                   in (None,
                       shard2\<lparr> m_recycler := m_recycler shard2 @ [(slicePtr, oldSlices)] \<rparr>))))"

text \<open>
  \<^verbatim>\<open>void Shard::AddPosting(Term const & term, DocIndex index, void* sliceBuffer)\<close>. The
  row table of a row is \<^verbatim>\<open>m_rowTables[row.GetRank()]\<close>, an unchecked access: the rank has
  to be an index of \<^verbatim>\<open>m_rowTables\<close>.
\<close>

definition AddPosting :: "Term \<Rightarrow> DocIndex \<Rightarrow> ptr \<Rightarrow> Shard \<Rightarrow> Shard" where
  "AddPosting term index sliceBuffer shard =
     (let shard1 =
            (case m_docFrequencyTableBuilder shard of
               None \<Rightarrow> shard
             | Some b \<Rightarrow> shard\<lparr> m_docFrequencyTableBuilder := Some (OnTerm term b) \<rparr>);
          rows = RowIdSequence term (m_termTable shard1)
      in fold (\<lambda>row sh.
                 sh\<lparr> memory := SetBit (m_rowTables sh ! GetRank row) sliceBuffer
                                   (GetIndex row) index (memory sh) \<rparr>)
           rows shard1)"

text \<open>\<^verbatim>\<open>void Shard::TemporaryRecordDocument()\<close>.\<close>

definition TemporaryRecordDocument :: "Shard \<Rightarrow> exception option \<times> Shard" where
  "TemporaryRecordDocument shard =
     (case m_docFrequencyTableBuilder shard of
        None \<Rightarrow> (Some InvalidPointer, shard)
      | Some b \<Rightarrow>
          (None, shard\<lparr> m_docFrequencyTableBuilder := Some (OnDocumentEnter b) \<rparr>))"


section \<open>Ingestor\<close>

text \<open>
  \<^verbatim>\<open>handle.GetSlice()->CommitDocument()\<close>: \<^verbatim>\<open>Slice::CommitDocument\<close> on the Slice at that
  address, with its call of \<^verbatim>\<open>Shard::TemporaryRecordDocument\<close>.
\<close>

definition CommitDocument_at :: "ptr \<Rightarrow> Shard \<Rightarrow> (exception + bool) \<times> Shard" where
  "CommitDocument_at p shard =
     (case slices shard p of
        None \<Rightarrow> (Inl InvalidPointer, shard)
      | Some s \<Rightarrow>
          (case TemporaryRecordDocument shard of
             (Some e, shard') \<Rightarrow> (Inl e, shard')
           | (None, shard1) \<Rightarrow>
               (let r = CommitDocument s
                in (fst r, shard1\<lparr> slices := (slices shard1)(p \<mapsto> snd r) \<rparr>))))"

text \<open>
  The collaborators of \<^verbatim>\<open>Ingestor::Add\<close> whose code is not among the source files are
  parameters: the document (\<^verbatim>\<open>IDocument\<close>), whose \<^verbatim>\<open>Ingest\<close> works on the shard through
  the handle and may throw, and the member functions \<^verbatim>\<open>Activate\<close> and \<^verbatim>\<open>Expire\<close> of
  \<^verbatim>\<open>DocumentHandleInternal\<close>. Each returns the exception it throws, if any, and the shard
  as it leaves it.
\<close>

record IDocument =
  GetPostingCount :: size_t
  Ingest :: "DocumentHandleInternal \<Rightarrow> Shard \<Rightarrow> exception option \<times> Shard"

record DocumentHandle_members =
  Activate :: "DocumentHandleInternal \<Rightarrow> Shard \<Rightarrow> exception option \<times> Shard"
  Expire :: "DocumentHandleInternal \<Rightarrow> Shard \<Rightarrow> exception option \<times> Shard"

text \<open>\<^verbatim>\<open>IShardDefinition\<close>, with the member the ingestor calls.\<close>

record IShardDefinition =
  GetShard :: "size_t \<Rightarrow> nat"

text \<open>
  Modelled from the spec: \<^verbatim>\<open>DocumentMap\<close> and \<^verbatim>\<open>DocumentLengthHistogram\<close> are not among
  the source files. Section 3: the map takes a DocId to its handle and its keys are
  unique; section 4.5: the insertion fails on a duplicate id, and the histogram
  accumulates the posting counts of the documents. A failed insertion leaves the map as it
  was.
\<close>

type_synonym DocumentMap = "DocId \<rightharpoonup> DocumentHandleInternal"

definition DocumentMap_Add ::
    "DocumentHandleInternal \<Rightarrow> DocumentMap \<Rightarrow> exception + DocumentMap" where
  "DocumentMap_Add handle m =
     (case m (m_id handle) of
        Some h \<Rightarrow> Inl (RecoverableError ''DocumentMap::Add: duplicate DocId.'')
      | None \<Rightarrow> Inr (m (m_id handle \<mapsto> handle)))"

definition DocumentMap_Find :: "DocId \<Rightarrow> DocumentMap \<Rightarrow> DocumentHandleInternal option" where
  "DocumentMap_Find docId m = m docId"

type_synonym DocumentLengthHistogram = "size_t list"

definition AddDocument :: "size_t \<Rightarrow> DocumentLengthHistogram \<Rightarrow> DocumentLengthHistogram" where
  "AddDocument postingCount h = h @ [postingCount]"

text \<open>
  The members of \<^verbatim>\<open>class Ingestor\<close> that \<^verbatim>\<open>Add\<close> and \<^verbatim>\<open>Contains\<close> use, and the log that
  \<^verbatim>\<open>LogB\<close> writes to (title and message of each entry).
\<close>

record Ingestor =
  m_shardDefinition :: IShardDefinition
  m_documentCount :: size_t
  m_histogram :: DocumentLengthHistogram
  m_shards :: "Shard list"
  m_documentMap :: DocumentMap
  log_entries :: "(string \<times> string) list"

definition LogB :: "string \<Rightarrow> string \<Rightarrow> Ingestor \<Rightarrow> Ingestor" where
  "LogB title message ing = ing\<lparr> log_entries := log_entries ing @ [(title, message)] \<rparr>"

text \<open>
  \<^verbatim>\<open>void Ingestor::Add(DocId id, IDocument const & document)\<close>. \<open>newSlice\<close> and \<open>buffer\<close>
  are what \<^verbatim>\<open>AllocateDocument\<close> obtains if it creates a Slice. \<^verbatim>\<open>m_shards[shardId]\<close> is
  an unchecked access. The result is the exception that leaves \<^verbatim>\<open>Add\<close>, if any.
\<close>

definition Ingestor_Add ::
    "DocumentHandle_members \<Rightarrow> ptr \<Rightarrow> ptr \<Rightarrow> DocId \<Rightarrow> IDocument \<Rightarrow> Ingestor
       \<Rightarrow> exception option \<times> Ingestor" where
  "Ingestor_Add members newSlice buffer docId document ing =
     (let ing1 = ing\<lparr> m_documentCount := m_documentCount ing + 1 \<rparr>;
          ing2 = ing1\<lparr> m_histogram :=
                         AddDocument (GetPostingCount document) (m_histogram ing1) \<rparr>;
          shardId = GetShard (m_shardDefinition ing2) (GetPostingCount document);
          put = (\<lambda>shard. ing2\<lparr> m_shards := (m_shards ing2)[shardId := shard] \<rparr>)
      in if \<not> shardId < length (m_shards ing2) then (Some InvalidPointer, ing2)
         else
           case AllocateDocument newSlice buffer docId (m_shards ing2 ! shardId) of
             (Inl e, shard') \<Rightarrow> (Some e, put shard')
           | (Inr handle, shard1) \<Rightarrow>
               (case Ingest document handle shard1 of
                  (Some e, shard') \<Rightarrow> (Some e, put shard')
                | (None, shard2) \<Rightarrow>
                    (case Activate members handle shard2 of
                       (Some e, shard') \<Rightarrow> (Some e, put shard')
                     | (None, shard3) \<Rightarrow>
                         (case CommitDocument_at (m_slice handle) shard3 of
                            (Inl e, shard') \<Rightarrow> (Some e, put shard')
                          | (Inr full, shard4) \<Rightarrow>
                              (case DocumentMap_Add handle (m_documentMap ing2) of
                                 Inr documentMap \<Rightarrow>
                                   (None, (put shard4)\<lparr> m_documentMap := documentMap \<rparr>)
                               | Inl e \<Rightarrow>
                                   (case Expire members handle shard4 of
                                      (None, shard5) \<Rightarrow> (Some e, put shard5)
                                    | (Some e', shard5) \<Rightarrow>
                                        (Some e,
                                         LogB ''Ingestor::Add''
                                           ''Error while cleaning up after AddDocument operation failed.''
                                           (put shard5))))))))"

text \<open>\<^verbatim>\<open>bool Ingestor::Contains(DocId id) const\<close>.\<close>

definition Contains :: "DocId \<Rightarrow> Ingestor \<Rightarrow> bool" where
  "Contains docId ing = (DocumentMap_Find docId (m_documentMap ing) \<noteq> None)"

text \<open>
  Modelled from the spec: the member functions of \<^verbatim>\<open>DocumentHandleInternal\<close> are not among
  the source files. Section 4.5: \<^verbatim>\<open>Activate\<close> sets the active-document bit of the column
  of the document; \<^verbatim>\<open>Expire\<close> clears it and invokes \<^verbatim>\<open>Slice::ExpireDocument\<close>. The
  reference count of the Slice, which \<^verbatim>\<open>Expire\<close> also decrements, is left out here.
\<close>

definition handle_Activate :: "DocumentHandleInternal \<Rightarrow> Shard \<Rightarrow> exception option \<times> Shard" where
  "handle_Activate handle shard =
     (case slices shard (m_slice handle) of
        None \<Rightarrow> (Some InvalidPointer, shard)
      | Some s \<Rightarrow>
          (case GetRowTable shard (GetRank (m_documentActiveRowId shard)) of
             Inl e \<Rightarrow> (Some e, shard)
           | Inr rt \<Rightarrow>
               (None, shard\<lparr> memory := SetBit rt (GetSliceBuffer s)
                                  (GetIndex (m_documentActiveRowId shard)) (m_index handle)
                                  (memory shard) \<rparr>)))"

definition handle_Expire :: "DocumentHandleInternal \<Rightarrow> Shard \<Rightarrow> exception option \<times> Shard" where
  "handle_Expire handle shard =
     (case slices shard (m_slice handle) of
        None \<Rightarrow> (Some InvalidPointer, shard)
      | Some s \<Rightarrow>
          (case GetRowTable shard (GetRank (m_documentActiveRowId shard)) of
             Inl e \<Rightarrow> (Some e, shard)
           | Inr rt \<Rightarrow>
               (let shard1 = shard\<lparr> memory := ClearBit rt (GetSliceBuffer s)
                                     (GetIndex (m_documentActiveRowId shard)) (m_index handle)
                                     (memory shard) \<rparr>;
                    r = ExpireDocument s
                in (case fst r of Inl e \<Rightarrow> Some e | Inr expired \<Rightarrow> None,
                    shard1\<lparr> slices := (slices shard1)(m_slice handle \<mapsto> snd r) \<rparr>))))"

definition handle_members :: DocumentHandle_members where
  "handle_members = \<lparr> Activate = handle_Activate, Expire = handle_Expire \<rparr>"


section \<open>QueryParser\<close>

text \<open>
  The members of \<^verbatim>\<open>class QueryParser\<close>: \<open>m_input\<close> is what the stream still holds,
  \<^verbatim>\<open>m_nextChar\<close> is not initialised by the constructor (zero here) and the allocator
  has no part in what is parsed.
\<close>

record QueryParser =
  m_input :: string
  m_currentPosition :: size_t
  m_haveChar :: bool
  m_nextChar :: char

definition QueryParser_ctor :: "string \<Rightarrow> QueryParser" where
  "QueryParser_ctor input =
     \<lparr> m_input = input, m_currentPosition = 0, m_haveChar = False, m_nextChar = CHR 0x00 \<rparr>"

text \<open>
  Modelled from the spec: \<^verbatim>\<open>TermMatchNode\<close> and its \<^verbatim>\<open>Builder\<close> are not among the source
  files. Section 4.7: the parser produces a tree of OR, AND, NOT, Unigram and Phrase
  nodes; a node that a builder completes holds its children in the order they were added.
\<close>

datatype TermMatchNode =
    OrMatch "TermMatchNode list"
  | AndMatch "TermMatchNode list"
  | NotMatch TermMatchNode
  | Unigram string nat
  | Phrase "string list" nat

text \<open>
  The C library: \<^verbatim>\<open>isspace\<close> in the C locale, and \<^verbatim>\<open>strchr(s, c) != nullptr\<close>, which also
  holds for the terminating zero of the string. A \<^verbatim>\<open>char\<close> passed where a \<^verbatim>\<open>size_t\<close> is
  expected is converted with its sign (\<^verbatim>\<open>char\<close> is signed on the x64 targets).
\<close>

definition isspace :: "char \<Rightarrow> bool" where
  "isspace c = (c \<in> set [CHR '' '', CHR 0x09, CHR 0x0A, CHR 0x0B, CHR 0x0C, CHR 0x0D])"

definition strchr :: "string \<Rightarrow> char \<Rightarrow> bool" where
  "strchr s c = (c = CHR 0x00 \<or> c \<in> set s)"

definition size_t_of_char :: "char \<Rightarrow> size_t" where
  "size_t_of_char c = scast (of_nat (of_char c) :: 8 word)"

definition c_str :: "string \<Rightarrow> string" where
  "c_str s = takeWhile (\<lambda>c. c \<noteq> CHR 0x00) s"

text \<open>\<^verbatim>\<open>char QueryParser::PeekChar()\<close>; \<^verbatim>\<open>m_input.get()\<close> returns -1 at the end.\<close>

definition PeekChar :: "QueryParser \<Rightarrow> char \<times> QueryParser" where
  "PeekChar p =
     (if \<not> m_haveChar p
      then (case m_input p of
              c # rest \<Rightarrow> (c, p\<lparr> m_input := rest, m_nextChar := c, m_haveChar := True \<rparr>)
            | [] \<Rightarrow> (CHR 0x00, p\<lparr> m_nextChar := CHR 0x00, m_haveChar := True \<rparr>))
      else (m_nextChar p, p))"

text \<open>\<^verbatim>\<open>char QueryParser::GetChar()\<close>.\<close>

definition GetChar :: "QueryParser \<Rightarrow> (exception + char) \<times> QueryParser" where
  "GetChar p =
     (let r = PeekChar p; result = fst r; p1 = snd r
      in if result = CHR 0x00
         then (Inl (ParseError ''Attempting to read past NULL byte'' (m_currentPosition p1)),
               p1)
         else (Inr result,
               p1\<lparr> m_currentPosition := m_currentPosition p1 + 1, m_haveChar := False \<rparr>))"

text \<open>\<^verbatim>\<open>char QueryParser::GetWithEscape()\<close>; \<^verbatim>\<open>legalEscapes\<close> is \<^verbatim>\<open>&|\()":-\<close>.\<close>

definition legalEscapes :: string where
  "legalEscapes = [CHR ''&'', CHR ''|'', CHR 0x5C, CHR ''('', CHR '')'', CHR 0x22,
                   CHR '':'', CHR ''-'']"

definition GetWithEscape :: "QueryParser \<Rightarrow> (exception + char) \<times> QueryParser" where
  "GetWithEscape p =
     (let r = PeekChar p; c = fst r; p1 = snd r
      in if c = CHR 0x5C
         then (case GetChar p1 of
                 (Inl e, p2) \<Rightarrow> (Inl e, p2)
               | (Inr skipped, p2) \<Rightarrow>
                   (let r2 = PeekChar p2; c2 = fst r2; p3 = snd r2
                    in if strchr legalEscapes c2 then GetChar p3
                       else (Inl (ParseError ''Bad escape char'' (size_t_of_char c2)), p3)))
         else GetChar p1)"

text \<open>\<^verbatim>\<open>void QueryParser::ExpectDelimeter(char c)\<close>; the message goes through \<^verbatim>\<open>c_str()\<close>.\<close>

definition ExpectDelimeter :: "char \<Rightarrow> QueryParser \<Rightarrow> (exception + unit) \<times> QueryParser" where
  "ExpectDelimeter c p =
     (let r = PeekChar p; got = fst r; p1 = snd r
      in if got \<noteq> c
         then (Inl (ParseError
                      (c_str (''Expected '' @ [CHR 0x27, c, CHR 0x27] @ '' Got ''
                              @ [CHR 0x27, got, CHR 0x27]))
                      (m_currentPosition p1)),
               p1)
         else (case GetChar p1 of
                 (Inl e, p2) \<Rightarrow> (Inl e, p2)
               | (Inr skipped, p2) \<Rightarrow> (Inr (), p2)))"

text \<open>
  The loops and the recursive descent take a number of steps they may still make: one for
  each round of a loop and each call of a parsing function. \<open>None\<close> means that the steps
  ran out; otherwise the outcome is the exception or the value, and the parser as it is
  left. \<open>and_then\<close> runs the rest of a function unless the first part threw.
\<close>

type_synonym 'a parsing = "((exception + 'a) \<times> QueryParser) option"

definition and_then :: "'a parsing \<Rightarrow> ('a \<Rightarrow> QueryParser \<Rightarrow> 'b parsing) \<Rightarrow> 'b parsing" where
  "and_then m f =
     (case m of
        None \<Rightarrow> None
      | Some (Inl e, p) \<Rightarrow> Some (Inl e, p)
      | Some (Inr x, p) \<Rightarrow> f x p)"

text \<open>\<^verbatim>\<open>void QueryParser::SkipWhite()\<close>.\<close>

fun SkipWhite :: "nat \<Rightarrow> QueryParser \<Rightarrow> unit parsing" where
  "SkipWhite 0 p = None"
| "SkipWhite (Suc n) p =
     (if isspace (fst (PeekChar p))
      then and_then (Some (GetChar (snd (PeekChar p)))) (\<lambda>skipped p1. SkipWhite n p1)
      else Some (Inr (), snd (PeekChar p)))"

text \<open>
  \<^verbatim>\<open>char const * QueryParser::ParseToken()\<close>: the loop that fills the \<^verbatim>\<open>StringBuilder\<close>,
  then the check of the token; \<^verbatim>\<open>c_endOfToken\<close> is \<^verbatim>\<open>&|():-"\<close>.
\<close>

definition c_endOfToken :: string where
  "c_endOfToken = [CHR ''&'', CHR ''|'', CHR ''('', CHR '')'', CHR '':'', CHR ''-'', CHR 0x22]"

fun ParseToken_loop :: "nat \<Rightarrow> string \<Rightarrow> QueryParser \<Rightarrow> string parsing" where
  "ParseToken_loop 0 builder p = None"
| "ParseToken_loop (Suc n) builder p =
     (if \<not> isspace (fst (PeekChar p)) \<and> \<not> strchr c_endOfToken (fst (PeekChar p))
      then and_then (Some (GetWithEscape (snd (PeekChar p))))
             (\<lambda>temp p1. ParseToken_loop n (builder @ [temp]) p1)
      else Some (Inr builder, snd (PeekChar p)))"

definition ParseToken :: "nat \<Rightarrow> QueryParser \<Rightarrow> string parsing" where
  "ParseToken n p =
     and_then (ParseToken_loop n [] p)
       (\<lambda>token p1.
          if token = []
          then Some (Inl (ParseError ''Expected token.'' (m_currentPosition p1)), p1)
          else Some (Inr token, p1))"

text \<open>\<^verbatim>\<open>Term::StreamId QueryParser::StreamIdFromText(char const *) const\<close>.\<close>

definition StreamIdFromText :: "string \<Rightarrow> nat" where
  "StreamIdFromText streamName = 123"

text \<open>
  \<^verbatim>\<open>TermMatchNode const * QueryParser::ParsePhrase(Term::StreamId streamId)\<close>; the
  parameter is \<open>stream\<close> here.
\<close>

fun ParsePhrase_loop :: "nat \<Rightarrow> nat \<Rightarrow> string list \<Rightarrow> QueryParser \<Rightarrow> TermMatchNode parsing" where
  "ParsePhrase_loop 0 stream grams p = None"
| "ParsePhrase_loop (Suc n) stream grams p =
     and_then (SkipWhite n p)
       (\<lambda>u p1.
          if fst (PeekChar p1) = CHR 0x22
          then and_then (Some (ExpectDelimeter (CHR 0x22) (snd (PeekChar p1))))
                 (\<lambda>u p2. Some (Inr (Phrase grams stream), p2))
          else and_then (ParseToken n (snd (PeekChar p1)))
                 (\<lambda>token p2. ParsePhrase_loop n stream (grams @ [token]) p2))"

definition ParsePhrase :: "nat \<Rightarrow> nat \<Rightarrow> QueryParser \<Rightarrow> TermMatchNode parsing" where
  "ParsePhrase n stream p =
     and_then (Some (ExpectDelimeter (CHR 0x22) p))
       (\<lambda>u p1. ParsePhrase_loop n stream [] p1)"

text \<open>\<^verbatim>\<open>TermMatchNode const * QueryParser::ParseTerm()\<close>.\<close>

definition ParseTerm :: "nat \<Rightarrow> QueryParser \<Rightarrow> TermMatchNode parsing" where
  "ParseTerm n p =
     and_then (SkipWhite n p)
       (\<lambda>u p1.
          if fst (PeekChar p1) = CHR 0x22 then ParsePhrase n 0 (snd (PeekChar p1))
          else
            and_then (ParseToken n (snd (PeekChar p1)))
              (\<lambda>left p2.
                 if fst (PeekChar p2) = CHR '':''
                 then and_then (Some (GetChar (snd (PeekChar p2))))
                        (\<lambda>skipped p3.
                           if fst (PeekChar p3) = CHR 0x22
                           then ParsePhrase n (StreamIdFromText left) (snd (PeekChar p3))
                           else and_then (ParseToken n (snd (PeekChar p3)))
                                  (\<lambda>right p4.
                                     Some (Inr (Unigram right (StreamIdFromText left)), p4)))
                 else Some (Inr (Unigram left 0), snd (PeekChar p2))))"

text \<open>
  \<^verbatim>\<open>ParseOr\<close>, \<^verbatim>\<open>ParseAnd\<close> and \<^verbatim>\<open>ParseSimple\<close> with the loops of the first two over the
  children collected so far; \<^verbatim>\<open>c_endOfAndProduction\<close> is \<^verbatim>\<open>)|\<close>.
\<close>

fun ParseOr :: "nat \<Rightarrow> QueryParser \<Rightarrow> TermMatchNode parsing"
  and ParseOr_loop :: "nat \<Rightarrow> TermMatchNode list \<Rightarrow> QueryParser \<Rightarrow> TermMatchNode parsing"
  and ParseAnd :: "nat \<Rightarrow> QueryParser \<Rightarrow> TermMatchNode parsing"
  and ParseAnd_loop :: "nat \<Rightarrow> TermMatchNode list \<Rightarrow> QueryParser \<Rightarrow> TermMatchNode parsing"
  and ParseSimple :: "nat \<Rightarrow> QueryParser \<Rightarrow> TermMatchNode parsing"
where
  "ParseOr 0 p = None"
| "ParseOr (Suc n) p =
     and_then (ParseAnd n p) (\<lambda>left p1. ParseOr_loop n [left] p1)"
| "ParseOr_loop 0 children p = None"
| "ParseOr_loop (Suc n) children p =
     and_then (SkipWhite n p)
       (\<lambda>u p1.
          if fst (PeekChar p1) \<noteq> CHR ''|''
          then Some (Inr (OrMatch children), snd (PeekChar p1))
          else and_then (Some (GetChar (snd (PeekChar p1))))
                 (\<lambda>skipped p2.
                    and_then (ParseAnd n p2)
                      (\<lambda>child p3. ParseOr_loop n (children @ [child]) p3)))"
| "ParseAnd 0 p = None"
| "ParseAnd (Suc n) p =
     and_then (ParseSimple n p) (\<lambda>leftSimple p1. ParseAnd_loop n [leftSimple] p1)"
| "ParseAnd_loop 0 children p = None"
| "ParseAnd_loop (Suc n) children p =
     and_then (SkipWhite n p)
       (\<lambda>u p1.
          if fst (PeekChar p1) = CHR ''&''
          then and_then (Some (GetChar (snd (PeekChar p1))))
                 (\<lambda>skipped p2.
                    and_then (ParseSimple n p2)
                      (\<lambda>child p3. ParseAnd_loop n (children @ [child]) p3))
          else if \<not> strchr [CHR '')'', CHR ''|''] (fst (PeekChar p1))
          then and_then (ParseSimple n (snd (PeekChar p1)))
                 (\<lambda>child p3. ParseAnd_loop n (children @ [child]) p3)
          else Some (Inr (AndMatch children), snd (PeekChar p1)))"
| "ParseSimple 0 p = None"
| "ParseSimple (Suc n) p =
     and_then (SkipWhite n p)
       (\<lambda>u p1.
          if fst (PeekChar p1) = CHR ''-''
          then and_then (Some (GetChar (snd (PeekChar p1))))
                 (\<lambda>skipped p2.
                    and_then (SkipWhite n p2)
                      (\<lambda>u p3.
                         and_then (ParseSimple n p3)
                           (\<lambda>simpleNode p4. Some (Inr (NotMatch simpleNode), p4))))
          else if fst (PeekChar p1) = CHR ''(''
          then and_then (Some (GetChar (snd (PeekChar p1))))
                 (\<lambda>skipped p2.
                    and_then (ParseOr n p2)
                      (\<lambda>orNode p3.
                         and_then (SkipWhite n p3)
                           (\<lambda>u p4.
                              and_then (Some (ExpectDelimeter (CHR '')'') p4))
                                (\<lambda>u p5. Some (Inr orNode, p5)))))
          else ParseTerm n (snd (PeekChar p1)))"

text \<open>
  \<^verbatim>\<open>TermMatchNode const * QueryParser::Parse()\<close> on a parser constructed on \<open>input\<close>, with
  \<open>n\<close> steps.
\<close>

definition Parse :: "nat \<Rightarrow> string \<Rightarrow> TermMatchNode parsing" where
  "Parse n input = ParseOr n (QueryParser_ctor input)"


text \<open>
  The bits that \<^verbatim>\<open>AddPosting(term, index, sliceBuffer)\<close> addresses: for each row of the
  term, the byte address and the bit number of the column of \<open>index\<close> in that row.
\<close>

definition posting_bits :: "Shard \<Rightarrow> Term \<Rightarrow> DocIndex \<Rightarrow> ptr \<Rightarrow> (ptr \<times> nat) list" where
  "posting_bits shard term index sliceBuffer =
     map (\<lambda>row. (bit_address (m_rowTables shard ! GetRank row) sliceBuffer (GetIndex row) index,
                  bit_number (m_rowTables shard ! GetRank row) index))
       (RowIdSequence term (m_termTable shard))"


section \<open>A small configuration\<close>

text \<open>
  A schema with one variable-size blob and one fixed-size blob of 8 bytes (16 bytes per
  document), and a term table with two rows, both of rank 0: row 0 for the
  document-active term and row 1 for every other term. The theorems below are
  instantiated on it.
\<close>

definition example_schema :: IDocumentDataSchema where
  "example_schema = \<lparr> variableSizeBlobCount = 1, fixedSizeBlobSizes = [8] \<rparr>"

definition example_termTable :: ITermTable where
  "example_termTable =
     \<lparr> GetMaxRankUsed = 0,
       GetTotalRowCount = (\<lambda>r. if r = 0 then 2 else 0),
       GetDocumentActiveTerm = \<lparr> hash = 0, streamId = 0, gramSize = 1, rank = 0 \<rparr>,
       rows_of_term =
         (\<lambda>t. if t = \<lparr> hash = 0, streamId = 0, gramSize = 1, rank = 0 \<rparr>
              then [\<lparr> GetRank = 0, GetIndex = 0 \<rparr>]
              else [\<lparr> GetRank = 0, GetIndex = 1 \<rparr>]) \<rparr>"


text \<open>
  The shard that \<^verbatim>\<open>Shard::Shard\<close> builds for this configuration and a slice buffer size of
  3000 bytes: 128 documents per Slice, the document table in the bytes from 0, the row
  table of rank 0 in the 32 bytes from 2048, no recycler item, no Slice and zeroed memory.
\<close>

definition example_shard :: Shard where
  "example_shard =
     \<lparr> m_docTable = Some \<lparr> dt_capacity = 128, dt_recordSize = 16, dt_baseOffset = 0 \<rparr>,
       m_rowTables =
         [\<lparr> rt_capacity = 128, rt_rowCount = 2, rt_rank = 0, rt_baseOffset = 2048 \<rparr>,
          \<lparr> rt_capacity = 128, rt_rowCount = 0, rt_rank = 1, rt_baseOffset = 2080 \<rparr>,
          \<lparr> rt_capacity = 128, rt_rowCount = 0, rt_rank = 2, rt_baseOffset = 2080 \<rparr>,
          \<lparr> rt_capacity = 128, rt_rowCount = 0, rt_rank = 3, rt_baseOffset = 2080 \<rparr>,
          \<lparr> rt_capacity = 128, rt_rowCount = 0, rt_rank = 4, rt_baseOffset = 2080 \<rparr>,
          \<lparr> rt_capacity = 128, rt_rowCount = 0, rt_rank = 5, rt_baseOffset = 2080 \<rparr>,
          \<lparr> rt_capacity = 128, rt_rowCount = 0, rt_rank = 6, rt_baseOffset = 2080 \<rparr>],
       m_termTable = example_termTable,
       m_documentActiveRowId = \<lparr> GetRank = 0, GetIndex = 0 \<rparr>,
       m_activeSlice = nullptr,
       m_sliceBuffers = [],
       m_sliceCapacity = 128,
       m_sliceBufferSize = 3000,
       m_docFrequencyTableBuilder = Some \<lparr> terms_recorded = [], documents_entered = 0 \<rparr>,
       m_recycler = [],
       slices = Map.empty,
       memory = (\<lambda>a. 0) \<rparr>"

text \<open>
  \<open>n\<close> calls of \<^verbatim>\<open>Shard::AllocateDocument\<close> in a row, for the documents \<open>0, ..., n - 1\<close>;
  \<open>newSlice\<close> and \<open>buffer\<close> are what the call that creates a Slice obtains.
\<close>

fun allocate_documents :: "nat \<Rightarrow> ptr \<Rightarrow> ptr \<Rightarrow> Shard \<Rightarrow> Shard" where
  "allocate_documents 0 newSlice buffer shard = shard"
| "allocate_documents (Suc n) newSlice buffer shard =
     snd (AllocateDocument newSlice buffer (of_nat n)
            (allocate_documents n newSlice buffer shard))"

text \<open>
  The invariant the spec gives for the state of a shard (section 3): the active Slice, if
  not null, has \<^verbatim>\<open>unallocated > 0\<close>.
\<close>

definition active_slice_invariant :: "Shard \<Rightarrow> bool" where
  "active_slice_invariant shard =
     (if m_activeSlice shard = nullptr then True
      else case slices shard (m_activeSlice shard) of
             None \<Rightarrow> False
           | Some s \<Rightarrow> 0 < m_unallocatedCount s)"


text \<open>
  A Slice of the shard above whose 128 documents are allocated, committed and expired.
\<close>

definition expired_slice :: "ptr \<Rightarrow> Slice" where
  "expired_slice buffer =
     (Slice_members 128 buffer)\<lparr> m_unallocatedCount := 0, m_expiredCount := 128 \<rparr>"


text \<open>A term other than the document-active term: its row is row 1 of rank 0.\<close>

definition example_term :: Term where
  "example_term = \<lparr> hash = 42, streamId = 0, gramSize = 1, rank = 0 \<rparr>"


text \<open>
  An ingestor with the shard above as its only shard, a document with one posting that
  its \<^verbatim>\<open>Ingest\<close> adds through the handle (\<^verbatim>\<open>handle.AddPosting(term)\<close> is
  \<^verbatim>\<open>AddPosting(term, index, sliceBuffer)\<close> on the shard), and a document whose \<^verbatim>\<open>Ingest\<close>
  throws.
\<close>

definition example_ingestor :: Ingestor where
  "example_ingestor =
     \<lparr> m_shardDefinition = \<lparr> GetShard = (\<lambda>postingCount. 0) \<rparr>,
       m_documentCount = 0,
       m_histogram = [],
       m_shards = [example_shard],
       m_documentMap = Map.empty,
       log_entries = [] \<rparr>"

definition example_document :: IDocument where
  "example_document =
     \<lparr> GetPostingCount = 1,
       Ingest = (\<lambda>handle shard.
         case slices shard (m_slice handle) of
           None \<Rightarrow> (Some InvalidPointer, shard)
         | Some s \<Rightarrow>
             (None, AddPosting example_term (m_index handle) (GetSliceBuffer s) shard)) \<rparr>"

definition failing_document :: IDocument where
  "failing_document =
     \<lparr> GetPostingCount = 1,
       Ingest = (\<lambda>handle shard. (Some (RecoverableError ''Ingest failed.''), shard)) \<rparr>"


section \<open>Allocation and commit fill a Slice\<close>

lemma unat_of_nat_64:
  assumes "k < 2 ^ 64"
  shows "unat (of_nat k :: 64 word) = k"
  using assms by (simp add: unat_of_nat)

lemma of_nat_eq_iff_unat:
  fixes C :: "64 word"
  assumes "k \<le> unat C"
  shows "(C = of_nat k) = (k = unat C)"
proof
  assume "C = of_nat k"
  then have "unat C = unat (of_nat k :: 64 word)" by simp
  moreover have "k < 2 ^ 64"
    using assms unsigned_less [of C, where 'a = nat] by simp
  ultimately show "k = unat C"
    by (simp add: unat_of_nat_64)
next
  assume "k = unat C"
  then show "C = of_nat k" by simp
qed




section \<open>Expiring a document\<close>





section \<open>The capacity search\<close>

lemma loop_reaches:
  assumes "k \<le> m"
    and "\<forall>j. k \<le> j \<and> j < m \<longrightarrow>
           fst (InitializeDescriptors no_shard
                  (of_nat (Suc j) * DocumentsInRank0Row 1 (GetMaxRankUsed tt)) schema tt) \<le> b"
    and "b < fst (InitializeDescriptors no_shard
                  (of_nat (Suc m) * DocumentsInRank0Row 1 (GetMaxRankUsed tt)) schema tt)"
  shows "GetCapacityForByteSize_loop b schema tt
           (of_nat k * DocumentsInRank0Row 1 (GetMaxRankUsed tt)) =
         Some (of_nat m * DocumentsInRank0Row 1 (GetMaxRankUsed tt))"
  using assms
proof (induction rule: inc_induct)
  case base
  have e: "of_nat m * DocumentsInRank0Row 1 (GetMaxRankUsed tt) + DocumentsInRank0Row 1 (GetMaxRankUsed tt)
        = of_nat (Suc m) * DocumentsInRank0Row 1 (GetMaxRankUsed tt)"
    by (simp add: algebra_simps)
  show ?case
    using base(2)
    by (subst GetCapacityForByteSize_loop.simps) (simp add: Let_def e del: of_nat_Suc)
next
  case (step n)
  have e: "of_nat n * DocumentsInRank0Row 1 (GetMaxRankUsed tt) + DocumentsInRank0Row 1 (GetMaxRankUsed tt)
        = of_nat (Suc n) * DocumentsInRank0Row 1 (GetMaxRankUsed tt)"
    by (simp add: algebra_simps)
  have fits: "\<not> b < fst (InitializeDescriptors no_shard
                  (of_nat (Suc n) * DocumentsInRank0Row 1 (GetMaxRankUsed tt)) schema tt)"
    using step.prems(1) step.hyps(1,2) by (simp add: not_less del: of_nat_Suc)
  have rest: "GetCapacityForByteSize_loop b schema tt
           (of_nat (Suc n) * DocumentsInRank0Row 1 (GetMaxRankUsed tt)) =
         Some (of_nat m * DocumentsInRank0Row 1 (GetMaxRankUsed tt))"
    using step.IH step.prems by simp
  show ?case
    using fits rest
    by (subst GetCapacityForByteSize_loop.simps) (simp add: Let_def e del: of_nat_Suc)
qed

lemma loop_never_returns:
  assumes "GetCapacityForByteSize_loop b schema tt c = Some y"
  shows "b \<noteq> - 1"
proof (rule GetCapacityForByteSize_loop.raw_induct
    [where P = "\<lambda>b schema tt c y. b \<noteq> - 1", OF _ assms])
  fix f :: "size_t \<Rightarrow> IDocumentDataSchema \<Rightarrow> ITermTable \<Rightarrow> DocIndex \<Rightarrow> DocIndex option"
  fix b' schema' tt' c' y'
  assume IH: "\<And>b s t c y. f b s t c = Some y \<Longrightarrow> b \<noteq> - 1"
  assume body: "(let newSuggestedCapacity =
            c' + DocumentsInRank0Row 1 (GetMaxRankUsed tt');
          newBufferSize =
            fst (InitializeDescriptors no_shard newSuggestedCapacity schema' tt')
      in if newBufferSize > b' then Some c'
         else f b' schema' tt' newSuggestedCapacity) = Some y'"
  show "b' \<noteq> - 1"
  proof
    assume m: "b' = - 1"
    have "\<not> b' < x" for x :: size_t
      using m by (simp add: not_less)
    with body have "f b' schema' tt' (c' + DocumentsInRank0Row 1 (GetMaxRankUsed tt')) = Some y'"
      by (simp add: Let_def)
    from IH [OF this] m show False by simp
  qed
qed

lemma quantum_nonzero:
  assumes "r \<le> c_maxRankValue"
  shows "DocumentsInRank0Row 1 r \<noteq> 0"
proof -
  have "r = 0 \<or> r = 1 \<or> r = 2 \<or> r = 3 \<or> r = 4 \<or> r = 5 \<or> r = 6"
    using assms by (auto simp add: c_maxRankValue_def)
  then show ?thesis
    by (auto simp add: DocumentsInRank0Row_def)
qed

lemma multiple_positive:
  fixes q :: size_t
  assumes "q \<noteq> 0" and "m * unat q < 2 ^ 64"
  shows "(0 < of_nat m * q) = (0 < m)"
proof -
  have "unat (of_nat m * q) = m * unat q"
    using assms(2) by (simp add: unat_word_ariths unat_of_nat)
       (metis mod_less mod_mult_left_eq)
  moreover have "0 < unat q"
    using assms(1) by (simp add: unat_gt_0)
  ultimately show ?thesis
    by (simp add: word_greater_zero_iff unat_eq_zero [symmetric])
qed

lemma example_size:
  "fst (InitializeDescriptors no_shard c example_schema example_termTable) = c * 16 + 2 * (c div 8) + 8"
  by (simp add: InitializeDescriptors_def InitializeDescriptors_rank_def example_schema_def example_termTable_def
   c_maxRankValue_def upt_rec DocTableDescriptor_GetBufferSize_def DocTable_recordSize_def sizeof_ptr_def
   RowTableDescriptor_GetBufferSize_def BytesInRow_def Let_def)



lemma example_quantum:
  "DocumentsInRank0Row 1 (GetMaxRankUsed example_termTable) = 64"
  by (simp add: DocumentsInRank0Row_def example_termTable_def)

lemma example_size_multiple:
  assumes "k \<le> 3"
  shows "fst (InitializeDescriptors no_shard (of_nat k * 64) example_schema example_termTable) =
      (if k = 0 then 8 else if k = 1 then 1048 else if k = 2 then 2088 else 3128)"
proof -
  have "k = 0 \<or> k = 1 \<or> k = 2 \<or> k = 3" using assms by arith
  then show ?thesis by (auto simp add: example_size)
qed

text \<open>
  C2 as stated fails: the search leaves its loop only when a layout is larger than
  \<^verbatim>\<open>bufferSizeInBytes\<close>, and no \<^verbatim>\<open>size_t\<close> is larger than \<^verbatim>\<open>SIZE_MAX\<close>. For that target
  size the function neither returns a capacity nor fails an assertion.
\<close>

theorem capacity_search_never_returns_counterexample:
  "GetCapacityForByteSize (- 1) example_schema example_termTable = None"
proof (cases "GetCapacityForByteSize_loop (- 1) example_schema example_termTable 0")
  case None
  then show ?thesis by (simp add: GetCapacityForByteSize_def)
next
  case (Some y)
  from loop_never_returns [OF this] show ?thesis by simp
qed

text \<open>
  C2, amended. Let \<open>q\<close> be the quantum \<^verbatim>\<open>DocumentsInRank0Row(1, maxRankUsed)\<close>. Whenever some
  multiple \<open>(n + 1) * q\<close> of the quantum, reached without wrapping around, has a layout
  larger than \<^verbatim>\<open>sliceBufferSize\<close>, and the layout size does not decrease from one multiple
  to a larger one up to there, \<^verbatim>\<open>GetCapacityForByteSize\<close> returns: it fails the fatal
  assertion when no positive multiple fits, and otherwise returns the positive multiple
  \<open>m * q\<close> with \<^verbatim>\<open>InitializeDescriptors(m * q) \<le> sliceBufferSize <
  InitializeDescriptors(m * q + q)\<close>, which is the only multiple up to \<open>n * q\<close> with that
  property.
\<close>

theorem capacity_search_fits:
  fixes n :: nat and tt :: ITermTable and schema :: IDocumentDataSchema and b :: size_t
  defines "q \<equiv> DocumentsInRank0Row 1 (GetMaxRankUsed tt)"
  defines "need \<equiv> \<lambda>c. fst (InitializeDescriptors no_shard c schema tt)"
  assumes rank: "GetMaxRankUsed tt \<le> c_maxRankValue"
    and nowrap: "Suc n * unat q < 2 ^ 64"
    and over: "b < need (of_nat (Suc n) * q)"
    and mono: "\<forall>i j. i \<le> j \<and> j \<le> Suc n \<longrightarrow> need (of_nat i * q) \<le> need (of_nat j * q)"
  shows "\<exists>m\<le>n.
      GetCapacityForByteSize b schema tt =
        Some (if m = 0 then Inl (FatalError ''Shard with 0 capacity.'')
              else Inr (of_nat m * q))
      \<and> (m = 0 \<longrightarrow> (\<forall>k. 0 < k \<and> k \<le> Suc n \<longrightarrow> b < need (of_nat k * q)))
      \<and> (0 < m \<longrightarrow>
           0 < of_nat m * q
           \<and> need (of_nat m * q) \<le> b \<and> b < need (of_nat m * q + q)
           \<and> (\<forall>k. 0 < k \<and> k \<le> n \<and> need (of_nat k * q) \<le> b
                    \<and> b < need (of_nat k * q + q) \<longrightarrow> k = m))"
proof -
  define P where "P j = (b < need (of_nat (Suc j) * q))" for j
  define m where "m = (LEAST j. P j)"
  have Pn: "P n" using over by (simp add: P_def)
  have Pm: "P m" unfolding m_def using Pn by (rule LeastI)
  have mn: "m \<le> n" unfolding m_def using Pn by (rule Least_le)
  have below: "\<not> P j" if "j < m" for j
    using that not_less_Least unfolding m_def by blast
  have suc: "of_nat j * q + q = of_nat (Suc j) * q" for j
    by (simp add: algebra_simps)
  have loop: "GetCapacityForByteSize_loop b schema tt (of_nat 0 * q) = Some (of_nat m * q)"
    unfolding q_def
  proof (rule loop_reaches)
    show "0 \<le> m" by simp
    show "\<forall>j. 0 \<le> j \<and> j < m \<longrightarrow>
        fst (InitializeDescriptors no_shard
               (of_nat (Suc j) * DocumentsInRank0Row 1 (GetMaxRankUsed tt)) schema tt) \<le> b"
      using below by (simp add: P_def need_def q_def not_less del: of_nat_Suc)
    show "b < fst (InitializeDescriptors no_shard
               (of_nat (Suc m) * DocumentsInRank0Row 1 (GetMaxRankUsed tt)) schema tt)"
      using Pm by (simp add: P_def need_def q_def del: of_nat_Suc)
  qed
  have qnz: "q \<noteq> 0"
    unfolding q_def using rank by (rule quantum_nonzero)
  have "m * unat q \<le> Suc n * unat q"
    using mn by (intro mult_le_mono1) simp
  then have "m * unat q < 2 ^ 64"
    using nowrap by simp
  then have pos: "(0 < of_nat m * q) = (0 < m)"
    using qnz by (rule multiple_positive [rotated])
  have ret: "GetCapacityForByteSize b schema tt =
        Some (if m = 0 then Inl (FatalError ''Shard with 0 capacity.'')
              else Inr (of_nat m * q))"
    using loop pos by (simp add: GetCapacityForByteSize_def LogAssertB_def)
  have none: "b < need (of_nat k * q)" if "m = 0" "0 < k" "k \<le> Suc n" for k
  proof -
    have "b < need (of_nat (Suc 0) * q)"
      using Pm that(1) by (simp add: P_def)
    moreover have "need (of_nat (Suc 0) * q) \<le> need (of_nat k * q)"
      using mono that(2,3) by (simp add: Suc_leI del: of_nat_Suc)
    ultimately show ?thesis by simp
  qed
  have fits: "need (of_nat m * q) \<le> b" if "0 < m"
  proof -
    from that have j: "m = Suc (m - 1)" by simp
    have "m - 1 < m" using that by simp
    then have "\<not> P (m - 1)" by (rule below)
    then have "need (of_nat (Suc (m - 1)) * q) \<le> b"
      unfolding P_def by (simp only: not_less)
    then show ?thesis using j by simp
  qed
  have next_over: "b < need (of_nat m * q + q)"
    using Pm by (simp add: P_def suc del: of_nat_Suc)
  have uniq: "k = m"
    if "0 < k" "k \<le> n" "need (of_nat k * q) \<le> b" "b < need (of_nat k * q + q)" for k
  proof (rule ccontr)
    assume ne: "k \<noteq> m"
    have "P k" using that(4) by (simp add: P_def suc del: of_nat_Suc)
    then have "m \<le> k" unfolding m_def by (rule Least_le)
    with ne have "Suc m \<le> k" by simp
    then have "need (of_nat (Suc m) * q) \<le> need (of_nat k * q)"
      using mono that(2) by (simp del: of_nat_Suc)
    with that(3) have "need (of_nat (Suc m) * q) \<le> b" by simp
    with Pm show False by (simp add: P_def)
  qed
  have zero: "m = 0 \<longrightarrow> (\<forall>k. 0 < k \<and> k \<le> Suc n \<longrightarrow> b < need (of_nat k * q))"
    using none by blast
  have positive: "0 < m \<longrightarrow>
           0 < of_nat m * q
           \<and> need (of_nat m * q) \<le> b \<and> b < need (of_nat m * q + q)
           \<and> (\<forall>k. 0 < k \<and> k \<le> n \<and> need (of_nat k * q) \<le> b
                    \<and> b < need (of_nat k * q + q) \<longrightarrow> k = m)"
  proof (intro impI conjI allI)
    assume "0 < m"
    then show "0 < of_nat m * q" using pos by simp
    show "need (of_nat m * q) \<le> b" using \<open>0 < m\<close> by (rule fits)
    show "b < need (of_nat m * q + q)" by (rule next_over)
  next
    fix k
    assume "0 < k \<and> k \<le> n \<and> need (of_nat k * q) \<le> b \<and> b < need (of_nat k * q + q)"
    then show "k = m" using uniq by blast
  qed
  from mn ret zero positive show ?thesis
    by (intro exI [of _ m] conjI)
qed


theorem capacity_search_fits_witness:
  "GetCapacityForByteSize 3000 example_schema example_termTable = Some (Inr 128)"
proof -
  let ?need = "\<lambda>c. fst (InitializeDescriptors no_shard c example_schema example_termTable)"
  have r: "GetMaxRankUsed example_termTable \<le> c_maxRankValue"
    by (simp add: example_termTable_def c_maxRankValue_def)
  have w: "Suc 2 * unat (DocumentsInRank0Row 1 (GetMaxRankUsed example_termTable)) < 2 ^ 64"
    by (simp add: example_quantum)
  have o: "3000 < ?need (of_nat (Suc 2) * DocumentsInRank0Row 1 (GetMaxRankUsed example_termTable))"
    by (simp add: example_quantum example_size)
  have m: "\<forall>i j. i \<le> j \<and> j \<le> Suc 2 \<longrightarrow>
      ?need (of_nat i * DocumentsInRank0Row 1 (GetMaxRankUsed example_termTable))
      \<le> ?need (of_nat j * DocumentsInRank0Row 1 (GetMaxRankUsed example_termTable))"
  proof (intro allI impI)
    fix i j :: nat
    assume a: "i \<le> j \<and> j \<le> Suc 2"
    then have i: "i \<le> 3" and j: "j \<le> 3" by simp_all
    show "?need (of_nat i * DocumentsInRank0Row 1 (GetMaxRankUsed example_termTable))
      \<le> ?need (of_nat j * DocumentsInRank0Row 1 (GetMaxRankUsed example_termTable))"
      using a by (simp only: example_quantum example_size_multiple [OF i]
          example_size_multiple [OF j]) (simp split: if_splits)
  qed
  from capacity_search_fits [OF r w o m]
  obtain m where m2: "m \<le> 2"
    and ret: "GetCapacityForByteSize 3000 example_schema example_termTable =
        Some (if m = 0 then Inl (FatalError ''Shard with 0 capacity.'')
              else Inr (of_nat m * 64))"
    and z: "m = 0 \<longrightarrow> (\<forall>k. 0 < k \<and> k \<le> Suc 2 \<longrightarrow> 3000 < ?need (of_nat k * 64))"
    and p: "0 < m \<longrightarrow> 0 < (of_nat m * 64 :: size_t) \<and> ?need (of_nat m * 64) \<le> 3000
         \<and> 3000 < ?need (of_nat m * 64 + 64)
         \<and> (\<forall>k. 0 < k \<and> k \<le> 2 \<and> ?need (of_nat k * 64) \<le> 3000
                    \<and> 3000 < ?need (of_nat k * 64 + 64) \<longrightarrow> k = m)"
    unfolding example_quantum by (elim exE conjE)
  have "m = 0 \<or> m = 1 \<or> m = 2" using m2 by arith
  then have "m = 2"
  proof (elim disjE)
    assume m0: "m = 0"
    from z m0 have "\<forall>k. 0 < k \<and> k \<le> Suc 2 \<longrightarrow> 3000 < ?need (of_nat k * 64)" by simp
    then have "0 < (1::nat) \<and> (1::nat) \<le> Suc 2 \<longrightarrow> 3000 < ?need (of_nat 1 * 64)" by (rule spec)
    then show ?thesis by (simp add: example_size)
  next
    assume "m = 1"
    with p have "3000 < ?need (of_nat 1 * 64 + 64)" by simp
    then show ?thesis by (simp add: example_size)
  next
    assume "m = 2" then show ?thesis .
  qed
  with ret show ?thesis by simp
qed


section \<open>The shard of the small configuration\<close>

lemma example_capacity_loop:
  "GetCapacityForByteSize_loop 3000 example_schema example_termTable 0 = Some 128"
proof -
  have "GetCapacityForByteSize_loop 3000 example_schema example_termTable
          (of_nat 0 * DocumentsInRank0Row 1 (GetMaxRankUsed example_termTable)) =
        Some (of_nat 2 * DocumentsInRank0Row 1 (GetMaxRankUsed example_termTable))"
  proof (rule loop_reaches)
    show "0 \<le> (2::nat)" by simp
    show "\<forall>j. 0 \<le> j \<and> j < 2 \<longrightarrow>
        fst (InitializeDescriptors no_shard
               (of_nat (Suc j) * DocumentsInRank0Row 1 (GetMaxRankUsed example_termTable))
               example_schema example_termTable) \<le> 3000"
    proof (intro allI impI)
      fix j :: nat
      assume "0 \<le> j \<and> j < 2"
      then have "j = 0 \<or> j = 1" by arith
      then show "fst (InitializeDescriptors no_shard
               (of_nat (Suc j) * DocumentsInRank0Row 1 (GetMaxRankUsed example_termTable))
               example_schema example_termTable) \<le> 3000"
        by (auto simp add: example_quantum example_size)
    qed
    show "3000 < fst (InitializeDescriptors no_shard
               (of_nat (Suc 2) * DocumentsInRank0Row 1 (GetMaxRankUsed example_termTable))
               example_schema example_termTable)"
      by (simp add: example_quantum example_size)
  qed
  then show ?thesis by (simp add: example_quantum)
qed

lemma example_capacity:
  "GetCapacityForByteSize 3000 example_schema example_termTable = Some (Inr 128)"
  by (simp add: GetCapacityForByteSize_def example_capacity_loop LogAssertB_def)

lemma example_active_row:
  "RowIdForActiveDocument example_termTable = Inr \<lparr> GetRank = 0, GetIndex = 0 \<rparr>"
  by (simp add: RowIdForActiveDocument_def RowIdSequence_def example_termTable_def)

lemma example_shard_constructed:
  "Shard_ctor [] (\<lambda>a. 0) example_termTable example_schema 3000 = Some (Inr example_shard)"
proof -
  have "Shard_ctor [] (\<lambda>a. 0) example_termTable example_schema 3000 =
      (let this = \<lparr> m_docTable = None, m_rowTables = [],
                             m_termTable = example_termTable,
                             m_documentActiveRowId = \<lparr> GetRank = 0, GetIndex = 0 \<rparr>,
                             m_activeSlice = nullptr,
                             m_sliceBuffers = [],
                             m_sliceCapacity = 128,
                             m_sliceBufferSize = 3000,
                             m_docFrequencyTableBuilder =
                               Some \<lparr> terms_recorded = [], documents_entered = 0 \<rparr>,
                             m_recycler = [],
                             slices = Map.empty,
                             memory = (\<lambda>a. 0) \<rparr>;
                    r = InitializeDescriptors (Some this) 128 example_schema example_termTable;
                    bufferSize = fst r
                in case LogAssertB (bufferSize \<le> 3000)
                          ''Shard sliceBufferSize too small.'' of
                     Some e \<Rightarrow> Some (Inl e)
                   | None \<Rightarrow>
                       (case snd r of
                          None \<Rightarrow> Some (Inl InvalidPointer)
                        | Some shard \<Rightarrow> Some (Inr shard)))"
    by (simp only: Shard_ctor_def example_capacity example_active_row sum.case option.case)
  also have "\<dots> = Some (Inr example_shard)"
    by (simp add: LogAssertB_def
      InitializeDescriptors_def InitializeDescriptors_rank_def c_maxRankValue_def upt_rec
      DocTableDescriptor_GetBufferSize_def DocTable_recordSize_def sizeof_ptr_def
      RowTableDescriptor_GetBufferSize_def BytesInRow_def Let_def
      DocTableDescriptor_ctor_def RowTableDescriptor_ctor_def
      example_shard_def example_termTable_def example_schema_def nullptr_def)
  finally show ?thesis .
qed


section \<open>Recycling a Slice\<close>

lemma length_filter_count:
  "length xs = length (filter (\<lambda>y. y \<noteq> x) xs) + count_list xs x"
  by (induction xs) simp_all

lemma filter_remove1_once:
  "count_list xs x = 1 \<Longrightarrow> filter (\<lambda>y. y \<noteq> x) xs = remove1 x xs"
proof (induction xs)
  case Nil
  then show ?case by simp
next
  case (Cons a xs)
  show ?case
  proof (cases "a = x")
    case True
    with Cons.prems have "count_list xs x = 0" by simp
    then have "x \<notin> set xs" by (simp add: count_list_0_iff)
    then have "filter (\<lambda>y. y \<noteq> x) xs = xs" by (auto simp add: filter_id_conv)
    with True show ?thesis by simp
  next
    case False
    with Cons show ?thesis by simp
  qed
qed

text \<open>
  C5 as stated fails: an expired Slice is not always recycled. \<^verbatim>\<open>RecycleSlice\<close> checks
  that the new vector is exactly one element shorter than the published one, and throws
  when it is not. A Slice constructed directly on the shard, as the unit tests do, has a
  buffer that is not in the published vector: recycling it when it is expired throws a
  \<^verbatim>\<open>RecoverableError\<close> and publishes and schedules nothing.
\<close>

theorem recycle_slice_not_listed_counterexample:
  "IsExpired (expired_slice 65536)
   \<and> RecycleSlice 20480
        (example_shard\<lparr> m_sliceBuffers := [131072],
                        slices := [20480 \<mapsto> expired_slice 65536] \<rparr>) =
       (Some (RecoverableError
          ''Slice buffer to be removed is not found in the active slice buffers list''),
        example_shard\<lparr> m_sliceBuffers := [131072],
                        slices := [20480 \<mapsto> expired_slice 65536] \<rparr>)"
  by (simp add: RecycleSlice_def IsExpired_def expired_slice_def Slice_members_def
      GetSliceBuffer_def)

text \<open>
  C5, amended. \<^verbatim>\<open>Shard::RecycleSlice\<close> on a Slice that is not expired throws a
  \<^verbatim>\<open>RecoverableError\<close> and leaves the shard unchanged. On an expired Slice whose buffer
  occurs exactly once in the published vector it publishes the vector without that buffer
  (the other buffers in their order), sets the active Slice to null if it was this Slice,
  and schedules the Slice together with the old vector through the recycler. On an expired
  Slice whose buffer does not occur exactly once in the published vector it throws and
  leaves the shard unchanged.
\<close>

theorem recycle_slice:
  assumes "slices shard p = Some s"
  shows "(\<not> IsExpired s \<longrightarrow>
            RecycleSlice p shard =
              (Some (RecoverableError ''Slice being recycled has not been fully expired''),
               shard))
       \<and> (IsExpired s \<and> count_list (m_sliceBuffers shard) (GetSliceBuffer s) = 1 \<longrightarrow>
            RecycleSlice p shard =
              (None,
               shard\<lparr> m_sliceBuffers := remove1 (GetSliceBuffer s) (m_sliceBuffers shard),
                      m_activeSlice :=
                        (if m_activeSlice shard = p then nullptr else m_activeSlice shard),
                      m_recycler := m_recycler shard @ [(p, m_sliceBuffers shard)] \<rparr>))
       \<and> (IsExpired s \<and> count_list (m_sliceBuffers shard) (GetSliceBuffer s) \<noteq> 1 \<longrightarrow>
            (\<exists>e. RecycleSlice p shard = (Some e, shard)))"
proof (intro conjI impI)
  assume "\<not> IsExpired s"
  then show "RecycleSlice p shard =
              (Some (RecoverableError ''Slice being recycled has not been fully expired''),
               shard)"
    using assms by (simp add: RecycleSlice_def)
next
  assume a: "IsExpired s \<and> count_list (m_sliceBuffers shard) (GetSliceBuffer s) = 1"
  then have ne: "m_sliceBuffers shard \<noteq> []" by auto
  have len: "length (m_sliceBuffers shard) =
      length (filter (\<lambda>it. it \<noteq> GetSliceBuffer s) (m_sliceBuffers shard)) + 1"
    using a length_filter_count [of "m_sliceBuffers shard" "GetSliceBuffer s"] by simp
  have rem: "filter (\<lambda>it. it \<noteq> GetSliceBuffer s) (m_sliceBuffers shard) =
      remove1 (GetSliceBuffer s) (m_sliceBuffers shard)"
    using a by (simp add: filter_remove1_once)
  show "RecycleSlice p shard =
              (None,
               shard\<lparr> m_sliceBuffers := remove1 (GetSliceBuffer s) (m_sliceBuffers shard),
                      m_activeSlice :=
                        (if m_activeSlice shard = p then nullptr else m_activeSlice shard),
                      m_recycler := m_recycler shard @ [(p, m_sliceBuffers shard)] \<rparr>)"
    using assms a ne len rem by (simp add: RecycleSlice_def Let_def)
next
  assume a: "IsExpired s \<and> count_list (m_sliceBuffers shard) (GetSliceBuffer s) \<noteq> 1"
  have len: "length (m_sliceBuffers shard) \<noteq>
      length (filter (\<lambda>it. it \<noteq> GetSliceBuffer s) (m_sliceBuffers shard)) + 1"
    using a length_filter_count [of "m_sliceBuffers shard" "GetSliceBuffer s"] by simp
  show "\<exists>e. RecycleSlice p shard = (Some e, shard)"
    using assms a len by (simp add: RecycleSlice_def Let_def)
qed



theorem recycle_slice_witness:
  "RecycleSlice 20480
     (example_shard\<lparr> m_activeSlice := 20480, m_sliceBuffers := [65536, 131072],
                     slices := [20480 \<mapsto> expired_slice 65536] \<rparr>) =
     (None,
      example_shard\<lparr> m_activeSlice := nullptr, m_sliceBuffers := [131072],
                      m_recycler := [(20480, [65536, 131072])],
                      slices := [20480 \<mapsto> expired_slice 65536] \<rparr>)
   \<and> RecycleSlice 20480
     (example_shard\<lparr> m_activeSlice := 20480, m_sliceBuffers := [65536, 131072],
                     slices := [20480 \<mapsto> Slice_members 128 65536] \<rparr>) =
     (Some (RecoverableError ''Slice being recycled has not been fully expired''),
      example_shard\<lparr> m_activeSlice := 20480, m_sliceBuffers := [65536, 131072],
                     slices := [20480 \<mapsto> Slice_members 128 65536] \<rparr>)"
proof -
  let ?a = "example_shard\<lparr> m_activeSlice := 20480, m_sliceBuffers := [65536, 131072],
                     slices := [20480 \<mapsto> expired_slice 65536] \<rparr>"
  let ?b = "example_shard\<lparr> m_activeSlice := 20480, m_sliceBuffers := [65536, 131072],
                     slices := [20480 \<mapsto> Slice_members 128 65536] \<rparr>"
  have a: "slices ?a 20480 = Some (expired_slice 65536)" by simp
  have b: "slices ?b 20480 = Some (Slice_members 128 65536)" by simp
  have ea: "IsExpired (expired_slice 65536)
      \<and> count_list (m_sliceBuffers ?a) (GetSliceBuffer (expired_slice 65536)) = 1"
    by (simp add: IsExpired_def expired_slice_def Slice_members_def GetSliceBuffer_def)
  have eb: "\<not> IsExpired (Slice_members 128 65536)"
    by (simp add: IsExpired_def Slice_members_def)
  from recycle_slice [OF a] ea
  have "RecycleSlice 20480 ?a =
      (None,
       ?a\<lparr> m_sliceBuffers := remove1 (GetSliceBuffer (expired_slice 65536)) (m_sliceBuffers ?a),
            m_activeSlice := (if m_activeSlice ?a = 20480 then nullptr else m_activeSlice ?a),
            m_recycler := m_recycler ?a @ [(20480, m_sliceBuffers ?a)] \<rparr>)"
    by blast
  moreover from recycle_slice [OF b] eb
  have "RecycleSlice 20480 ?b =
      (Some (RecoverableError ''Slice being recycled has not been fully expired''), ?b)"
    by blast
  ultimately show ?thesis
    by (simp add: expired_slice_def Slice_members_def GetSliceBuffer_def example_shard_def)
qed


section \<open>The active Slice of a shard\<close>

lemma try_allocate_at:
  assumes "TryAllocateDocument_at p shard = (Inr (Some i), shard')"
  shows "\<exists>s. slices shard' p = Some s
           \<and> m_unallocatedCount s = m_capacity s - i - 1
           \<and> m_activeSlice shard' = m_activeSlice shard"
  using assms
  by (auto simp add: TryAllocateDocument_at_def TryAllocateDocument_def Let_def
      split: option.splits if_splits)

lemma create_new_active_slice:
  assumes "CreateNewActiveSlice newSlice buffer shard = (None, shard')"
  shows "m_activeSlice shard' = newSlice
       \<and> slices shard' newSlice = Some (Slice_members (m_sliceCapacity shard) buffer)"
  using assms
  by (auto simp add: CreateNewActiveSlice_def Slice_ctor_def GetSliceCapacity_def Let_def
      split: prod.splits sum.splits option.splits)

lemma try_allocate_at_other:
  assumes "TryAllocateDocument_at p shard = (Inr None, shard')"
  shows "shard' = shard\<lparr> slices := slices shard' \<rparr> \<and> m_sliceCapacity shard' = m_sliceCapacity shard"
  using assms
  by (auto simp add: TryAllocateDocument_at_def TryAllocateDocument_def Let_def
      split: option.splits if_splits)

lemma slice_ctor_rowTables_ok:
  assumes "\<forall>r \<in> set rs. r < length (m_rowTables shard)"
  shows "fst (Slice_ctor_rowTables shard buffer rs mem) = None"
  using assms
  by (induction rs arbitrary: mem) (simp_all add: GetRowTable_def)

lemma allocate_document_first:
  assumes "m_activeSlice shard = nullptr" and "newSlice \<noteq> nullptr"
    and "m_docTable shard \<noteq> None" and "length (m_rowTables shard) = 7"
    and "m_sliceCapacity shard \<noteq> 0"
  shows "\<exists>shard'. AllocateDocument newSlice buffer docId shard =
           (Inr \<lparr> m_slice = newSlice, m_index = 0, m_id = docId \<rparr>, shard')
         \<and> m_activeSlice shard' = newSlice
         \<and> m_sliceCapacity shard' = m_sliceCapacity shard
         \<and> slices shard' newSlice =
             Some ((Slice_members (m_sliceCapacity shard) buffer)
                    \<lparr> m_unallocatedCount := m_sliceCapacity shard - 1,
                       m_commitPendingCount := 1 \<rparr>)"
proof -
  have "\<forall>r \<in> set [0..<Suc c_maxRankValue]. r < length (m_rowTables shard)"
    using assms(4) by (simp add: c_maxRankValue_def)
  then have ok: "fst (Slice_ctor_rowTables shard buffer [0..<Suc c_maxRankValue] mem) = None" for mem
    by (rule slice_ctor_rowTables_ok)
  obtain dt where dt: "m_docTable shard = Some dt" using assms(3) by auto
  show ?thesis
    using assms(1,2,5) dt ok
    by (simp add: AllocateDocument_def CreateNewActiveSlice_def Slice_ctor_def GetDocTable_def
        GetSliceCapacity_def GetSliceBuffer_def TryAllocateDocument_at_def TryAllocateDocument_def
        LogAssertB_def Slice_members_def Let_def split: prod.splits)
qed

lemma allocate_document_next:
  assumes "m_activeSlice shard = p" and "p \<noteq> nullptr"
    and "slices shard p = Some s" and "m_unallocatedCount s \<noteq> 0"
  shows "AllocateDocument newSlice buffer docId shard =
           (Inr \<lparr> m_slice = p, m_index = m_capacity s - m_unallocatedCount s, m_id = docId \<rparr>,
            shard\<lparr> slices := (slices shard)(p \<mapsto>
                      s\<lparr> m_unallocatedCount := m_unallocatedCount s - 1,
                         m_commitPendingCount := m_commitPendingCount s + 1 \<rparr>) \<rparr>)"
  using assms
  by (simp add: AllocateDocument_def TryAllocateDocument_at_def TryAllocateDocument_def Let_def)

lemma allocate_documents_fresh:
  assumes "m_activeSlice shard = nullptr" and "newSlice \<noteq> nullptr"
    and "m_docTable shard \<noteq> None" and "length (m_rowTables shard) = 7"
    and "k < unat (m_sliceCapacity shard)"
  shows "fst (AllocateDocument newSlice buffer (of_nat k)
                (allocate_documents k newSlice buffer shard)) =
           Inr \<lparr> m_slice = newSlice, m_index = of_nat k, m_id = of_nat k \<rparr>
       \<and> m_activeSlice (allocate_documents (Suc k) newSlice buffer shard) = newSlice
       \<and> slices (allocate_documents (Suc k) newSlice buffer shard) newSlice =
           Some ((Slice_members (m_sliceCapacity shard) buffer)
                  \<lparr> m_unallocatedCount := m_sliceCapacity shard - of_nat (Suc k),
                     m_commitPendingCount := of_nat (Suc k) \<rparr>)"
  using assms(5)
proof (induction k)
  case 0
  then have "m_sliceCapacity shard \<noteq> 0" by (auto simp add: unat_gt_0)
  from allocate_document_first [OF assms(1,2,3,4) this, of buffer 0]
  show ?case by auto
next
  case (Suc k)
  let ?C = "m_sliceCapacity shard"
  let ?sh = "allocate_documents (Suc k) newSlice buffer shard"
  let ?s = "(Slice_members ?C buffer)
                  \<lparr> m_unallocatedCount := ?C - of_nat (Suc k),
                     m_commitPendingCount := of_nat (Suc k) \<rparr>"
  from Suc have k: "k < unat ?C" and sk: "Suc k \<le> unat ?C" and ne: "Suc k \<noteq> unat ?C"
    by simp_all
  from Suc.IH [OF k] have a: "m_activeSlice ?sh = newSlice"
    and sl: "slices ?sh newSlice = Some ?s" by simp_all
  have "?C \<noteq> of_nat (Suc k)"
    using of_nat_eq_iff_unat [OF sk] ne by simp
  then have nz: "m_unallocatedCount ?s \<noteq> 0" by simp
  have step: "AllocateDocument newSlice buffer (of_nat (Suc k)) ?sh =
      (Inr \<lparr> m_slice = newSlice, m_index = m_capacity ?s - m_unallocatedCount ?s,
             m_id = of_nat (Suc k) \<rparr>,
       ?sh\<lparr> slices := (slices ?sh)(newSlice \<mapsto>
                ?s\<lparr> m_unallocatedCount := m_unallocatedCount ?s - 1,
                    m_commitPendingCount := m_commitPendingCount ?s + 1 \<rparr>) \<rparr>)"
    by (rule allocate_document_next [OF a assms(2) sl nz])
  have unfold: "allocate_documents (Suc (Suc k)) newSlice buffer shard =
      snd (AllocateDocument newSlice buffer (of_nat (Suc k)) ?sh)"
    by (simp only: allocate_documents.simps)
  have i: "m_capacity ?s - m_unallocatedCount ?s = of_nat (Suc k)"
    by (simp add: Slice_members_def)
  show ?case
    unfolding unfold step
    by (simp add: a i Slice_members_def algebra_simps del: allocate_documents.simps)
qed

text \<open>
  C7 as stated fails. \<^verbatim>\<open>AllocateDocument\<close> replaces an exhausted active Slice only when
  the next document is allocated: right after the call that hands out the last DocIndex
  (127 of a Slice of 128 documents) the active Slice is not null and has
  \<^verbatim>\<open>unallocated == 0\<close>.
\<close>

theorem active_slice_exhausted_counterexample:
  "fst (AllocateDocument 20480 65536 127 (allocate_documents 127 20480 65536 example_shard)) =
     Inr \<lparr> m_slice = 20480, m_index = 127, m_id = 127 \<rparr>
   \<and> \<not> active_slice_invariant (allocate_documents 128 20480 65536 example_shard)"
proof -
  have 1: "m_activeSlice example_shard = nullptr" by (simp add: example_shard_def)
  have 2: "(20480 :: ptr) \<noteq> nullptr" by (simp add: nullptr_def)
  have 3: "m_docTable example_shard \<noteq> None" by (simp add: example_shard_def)
  have 4: "length (m_rowTables example_shard) = 7" by (simp add: example_shard_def)
  have 5: "127 < unat (m_sliceCapacity example_shard)" by (simp add: example_shard_def)
  have c: "m_sliceCapacity example_shard = 128" by (simp add: example_shard_def)
  from allocate_documents_fresh [OF 1 2 3 4 5, of 65536]
  show ?thesis
    by (simp add: active_slice_invariant_def c nullptr_def)
qed

text \<open>
  C7, amended. After an \<^verbatim>\<open>AllocateDocument\<close> call that returns a handle, the active
  Slice is not null, it is the Slice of the handle, and its unallocated count is
  \<^verbatim>\<open>capacity - index - 1\<close>: greater than zero unless the call handed out the last
  DocIndex of the Slice. An active Slice left with \<^verbatim>\<open>unallocated == 0\<close> is replaced by the
  next \<^verbatim>\<open>AllocateDocument\<close>, which hands out DocIndex 0 of a new Slice.
\<close>

theorem allocate_document_active_slice:
  assumes alloc: "AllocateDocument newSlice buffer docId shard = (Inr h, shard')"
    and nn: "newSlice \<noteq> nullptr"
  shows "m_activeSlice shard' = m_slice h
       \<and> m_activeSlice shard' \<noteq> nullptr
       \<and> (\<exists>s. slices shard' (m_slice h) = Some s
              \<and> m_unallocatedCount s = m_capacity s - m_index h - 1
              \<and> (0 < m_unallocatedCount s) = (m_index h + 1 \<noteq> m_capacity s))
       \<and> ((\<exists>s. slices shard (m_activeSlice shard) = Some s \<and> m_unallocatedCount s = 0)
            \<longrightarrow> m_slice h = newSlice \<and> m_index h = 0)"
proof -
  define first where "first =
    (if m_activeSlice shard = nullptr then (Inr None, shard)
     else TryAllocateDocument_at (m_activeSlice shard) shard)"
  have pos: "(0 < c - i - 1) = (i + 1 \<noteq> c)" for c i :: DocIndex
    by (auto simp add: word_greater_zero_iff algebra_simps)
  obtain r1 sh1 where first: "first = (r1, sh1)" by (cases first)
  have unfolded: "AllocateDocument newSlice buffer docId shard =
     (case first of
        (Inl e, shard') \<Rightarrow> (Inl e, shard')
      | (Inr (Some index), shard') \<Rightarrow>
          (Inr \<lparr> m_slice = m_activeSlice shard', m_index = index, m_id = docId \<rparr>, shard')
      | (Inr None, shard1) \<Rightarrow>
          (case CreateNewActiveSlice newSlice buffer shard1 of
             (Some e, shard') \<Rightarrow> (Inl e, shard')
           | (None, shard2) \<Rightarrow>
               (case TryAllocateDocument_at (m_activeSlice shard2) shard2 of
                  (Inl e, shard') \<Rightarrow> (Inl e, shard')
                | (Inr r, shard3) \<Rightarrow>
                    (case LogAssertB (r \<noteq> None) ''Newly allocated slice has no space.'' of
                       Some e \<Rightarrow> (Inl e, shard3)
                     | None \<Rightarrow>
                         (case r of
                            None \<Rightarrow> (Inl InvalidPointer, shard3)
                          | Some index \<Rightarrow>
                              (Inr \<lparr> m_slice = m_activeSlice shard3, m_index = index,
                                     m_id = docId \<rparr>, shard3))))))"
    unfolding AllocateDocument_def first_def ..
  consider (direct) i where "first = (Inr (Some i), shard')"
       "h = \<lparr> m_slice = m_activeSlice shard', m_index = i, m_id = docId \<rparr>"
       "m_activeSlice shard \<noteq> nullptr"
    | (fresh) shard1 shard2 i where "first = (Inr None, shard1)"
       "CreateNewActiveSlice newSlice buffer shard1 = (None, shard2)"
       "TryAllocateDocument_at (m_activeSlice shard2) shard2 = (Inr (Some i), shard')"
       "h = \<lparr> m_slice = m_activeSlice shard', m_index = i, m_id = docId \<rparr>"
  proof (cases r1)
    case (Inl e)
    with alloc unfolded first show ?thesis by simp
  next
    case (Inr r)
    show ?thesis
    proof (cases r)
      case (Some i)
      have "m_activeSlice shard \<noteq> nullptr"
      proof
        assume "m_activeSlice shard = nullptr"
        then have "first = (Inr None, shard)" by (simp add: first_def)
        with first Inr Some show False by simp
      qed
      moreover have "first = (Inr (Some i), shard')"
        "h = \<lparr> m_slice = m_activeSlice shard', m_index = i, m_id = docId \<rparr>"
        using alloc unfolded first Inr Some by auto
      ultimately show ?thesis using direct by blast
    next
      case None
      obtain c1 sh2 where c: "CreateNewActiveSlice newSlice buffer sh1 = (c1, sh2)"
        by (cases "CreateNewActiveSlice newSlice buffer sh1")
      obtain t1 sh3 where t: "TryAllocateDocument_at (m_activeSlice sh2) sh2 = (t1, sh3)"
        by (cases "TryAllocateDocument_at (m_activeSlice sh2) sh2")
      have c1: "c1 = None"
        using alloc unfolded first Inr None c by (cases c1) simp_all
      have "\<exists>i. t1 = Inr (Some i) \<and> sh3 = shard'
             \<and> h = \<lparr> m_slice = m_activeSlice shard', m_index = i, m_id = docId \<rparr>"
        using alloc unfolded first Inr None c c1 t
        by (cases t1) (auto simp add: LogAssertB_def split: option.splits if_splits)
      then show ?thesis
        using fresh first Inr None c c1 t by blast
    qed
  qed
  then show ?thesis
  proof cases
    case direct
    from direct(1,3) have t: "TryAllocateDocument_at (m_activeSlice shard) shard = (Inr (Some i), shard')"
      by (simp add: first_def)
    from try_allocate_at [OF t] obtain s where s: "slices shard' (m_activeSlice shard) = Some s"
      "m_unallocatedCount s = m_capacity s - i - 1" "m_activeSlice shard' = m_activeSlice shard"
      by blast
    have old: "\<not> (\<exists>s. slices shard (m_activeSlice shard) = Some s \<and> m_unallocatedCount s = 0)"
      using t by (auto simp add: TryAllocateDocument_at_def TryAllocateDocument_def Let_def
          split: option.splits if_splits)
    show ?thesis
      using direct(2,3) s old by (auto simp add: pos)
  next
    case fresh
    from create_new_active_slice [OF fresh(2)]
    have a: "m_activeSlice shard2 = newSlice"
      and f: "slices shard2 newSlice = Some (Slice_members (m_sliceCapacity shard1) buffer)"
      by simp_all
    from try_allocate_at [OF fresh(3)] a obtain s where s: "slices shard' newSlice = Some s"
      "m_unallocatedCount s = m_capacity s - i - 1" "m_activeSlice shard' = newSlice"
      by auto
    have "i = 0"
      using fresh(3) a f
      by (auto simp add: TryAllocateDocument_at_def TryAllocateDocument_def Let_def Slice_members_def
          split: option.splits if_splits)
    moreover have "(0 < c - 1) = (c \<noteq> 1)" for c :: DocIndex
      by (simp add: word_greater_zero_iff)
    ultimately show ?thesis
      using fresh(4) s nn by simp
  qed
qed

theorem allocate_document_active_slice_witness:
  "\<exists>h shard'. AllocateDocument 20480 65536 7 example_shard = (Inr h, shard')
     \<and> m_activeSlice shard' = m_slice h
     \<and> m_activeSlice shard' \<noteq> nullptr
     \<and> (\<exists>s. slices shard' (m_slice h) = Some s
            \<and> m_unallocatedCount s = m_capacity s - m_index h - 1)"
proof -
  have 1: "m_activeSlice example_shard = nullptr" by (simp add: example_shard_def)
  have 2: "(20480 :: ptr) \<noteq> nullptr" by (simp add: nullptr_def)
  have 3: "m_docTable example_shard \<noteq> None" by (simp add: example_shard_def)
  have 4: "length (m_rowTables example_shard) = 7" by (simp add: example_shard_def)
  have 5: "m_sliceCapacity example_shard \<noteq> 0" by (simp add: example_shard_def)
  from allocate_document_first [OF 1 2 3 4 5, of 65536 7]
  obtain shard' where r: "AllocateDocument 20480 65536 7 example_shard =
           (Inr \<lparr> m_slice = 20480, m_index = 0, m_id = 7 \<rparr>, shard')"
    by blast
  from allocate_document_active_slice [OF r 2] r
  show ?thesis by blast
qed


section \<open>The back-pointer round trip\<close>












text \<open>
  The constructor of Shard establishes that layout. \<^verbatim>\<open>InitializeDescriptors\<close> lays the
  tables out one after the other and adds the size of the pointer, and the constructor
  asserts that the total is at most \<^verbatim>\<open>sliceBufferSize\<close>. Two conditions make the sizes
  mean what they say: the total does not wrap around in \<^verbatim>\<open>size_t\<close>, and every row of the
  document-active term is a row of the table of its rank, whose size does not wrap
  around either.
\<close>

lemma fold_rank_offset:
  "fst (fold (InitializeDescriptors_rank cap tt) rs (off, x)) =
     off + sum_list (map (\<lambda>r. RowTableDescriptor_GetBufferSize cap (GetTotalRowCount tt r) r) rs)"
  by (induction rs arbitrary: off x)
     (simp_all add: InitializeDescriptors_rank_def Let_def add.assoc)

lemma unat_sum_list_nowrap:
  fixes off :: size_t
  assumes "unat off + sum_list (map unat ws) < 2 ^ 64"
  shows "unat (off + sum_list ws) = unat off + sum_list (map unat ws)"
  using assms
proof (induction ws arbitrary: off)
  case Nil
  show ?case by simp
next
  case (Cons w ws)
  from Cons.prems have "unat off + unat w < 2 ^ LENGTH(64)"
    by simp
  then have a: "unat (off + w) = unat off + unat w"
    by (simp only: unat_add_lem [THEN iffD1])
  with Cons.prems have "unat (off + w) + sum_list (map unat ws) < 2 ^ 64"
    by simp
  from Cons.IH [OF this] a show ?case
    by (simp add: add.assoc)
qed

lemma row_region_below:
  fixes off idx rowCount bytes limit :: size_t
  assumes fits: "unat off + unat (rowCount * bytes) \<le> unat limit"
    and idx: "unat idx < unat rowCount"
    and nowrap: "unat rowCount * unat bytes < 2 ^ 64"
  shows "unat (off + idx * bytes) + unat bytes \<le> unat limit"
proof -
  from nowrap have "unat rowCount * unat bytes < 2 ^ LENGTH(64)"
    by simp
  then have table: "unat (rowCount * bytes) = unat rowCount * unat bytes"
    by (simp only: unat_mult_lem [THEN iffD1])
  from idx have "Suc (unat idx) * unat bytes \<le> unat rowCount * unat bytes"
    by (intro mult_le_mono1) simp
  then have le: "unat idx * unat bytes + unat bytes \<le> unat rowCount * unat bytes"
    by simp
  with nowrap have "unat idx * unat bytes < 2 ^ LENGTH(64)"
    by simp
  then have row: "unat (idx * bytes) = unat idx * unat bytes"
    by (simp only: unat_mult_lem [THEN iffD1])
  have "unat limit < 2 ^ 64"
    using unsigned_less [of limit, where 'a = nat] by simp
  with fits table le row have "unat off + unat (idx * bytes) < 2 ^ LENGTH(64)"
    by simp
  then have "unat (off + idx * bytes) = unat off + unat (idx * bytes)"
    by (simp only: unat_add_lem [THEN iffD1])
  with fits table le row show ?thesis
    by simp
qed

lemma fold_rank_tables:
  fixes d :: Shard
  assumes "unat off
      + sum_list (map (\<lambda>r. unat (RowTableDescriptor_GetBufferSize cap (GetTotalRowCount tt r) r)) rs)
      \<le> unat limit"
    and "list_all (row_table_fits tt limit) (m_rowTables d)"
    and rows: "\<forall>row \<in> set (RowIdSequence (GetDocumentActiveTerm tt) tt).
        unat (GetIndex row) < unat (GetTotalRowCount tt (GetRank row))
        \<and> unat (GetTotalRowCount tt (GetRank row)) * unat (BytesInRow cap (GetRank row)) < 2 ^ 64"
  shows "\<exists>ts. snd (fold (InitializeDescriptors_rank cap tt) rs (off, Some d)) =
                 Some (d\<lparr> m_rowTables := ts \<rparr>)
             \<and> list_all (row_table_fits tt limit) ts"
  using assms(1,2)
proof (induction rs arbitrary: off d)
  case Nil
  have "d = d\<lparr> m_rowTables := m_rowTables d \<rparr>" by simp
  with Nil show ?case
    by (intro exI [of _ "m_rowTables d"]) simp
next
  case (Cons r rs)
  let ?size = "RowTableDescriptor_GetBufferSize cap (GetTotalRowCount tt r) r"
  let ?rt = "RowTableDescriptor_ctor cap (GetTotalRowCount tt r) r off"
  let ?d = "d\<lparr> m_rowTables := m_rowTables d @ [?rt] \<rparr>"
  from Cons.prems(1) have here: "unat off + unat ?size \<le> unat limit"
    by simp
  have "unat limit < 2 ^ 64"
    using unsigned_less [of limit, where 'a = nat] by simp
  with here have "unat off + unat ?size < 2 ^ LENGTH(64)"
    by simp
  then have next_off: "unat (off + ?size) = unat off + unat ?size"
    by (simp only: unat_add_lem [THEN iffD1])
  have rt: "row_table_fits tt limit ?rt"
    unfolding row_table_fits_def
  proof (intro conjI)
    show "region_below (rt_baseOffset ?rt)
        (RowTableDescriptor_GetBufferSize (rt_capacity ?rt) (rt_rowCount ?rt) (rt_rank ?rt)) limit"
      using here by (simp add: region_below_def RowTableDescriptor_ctor_def)
    show "list_all
          (\<lambda>row. if GetRank row = rt_rank ?rt
                  then region_below (GetRowOffset ?rt (GetIndex row))
                         (BytesInRow (rt_capacity ?rt) (rt_rank ?rt)) limit
                  else True)
          (RowIdSequence (GetDocumentActiveTerm tt) tt)"
      unfolding list_all_iff
    proof (intro ballI)
      fix row
      assume row: "row \<in> set (RowIdSequence (GetDocumentActiveTerm tt) tt)"
      show "if GetRank row = rt_rank ?rt
            then region_below (GetRowOffset ?rt (GetIndex row))
                   (BytesInRow (rt_capacity ?rt) (rt_rank ?rt)) limit
            else True"
      proof (cases "GetRank row = r")
        case True
        from rows row True
        have idx: "unat (GetIndex row) < unat (GetTotalRowCount tt r)"
          and nowrap: "unat (GetTotalRowCount tt r) * unat (BytesInRow cap r) < 2 ^ 64"
          by auto
        from here have "unat off + unat (GetTotalRowCount tt r * BytesInRow cap r) \<le> unat limit"
          by (simp add: RowTableDescriptor_GetBufferSize_def)
        from row_region_below [OF this idx nowrap] True show ?thesis
          by (simp add: region_below_def RowTableDescriptor_ctor_def GetRowOffset_def)
      next
        case False
        then show ?thesis by (simp add: RowTableDescriptor_ctor_def)
      qed
    qed
  qed
  from Cons.prems(1) next_off have 1: "unat (off + ?size)
      + sum_list (map (\<lambda>r. unat (RowTableDescriptor_GetBufferSize cap (GetTotalRowCount tt r) r)) rs)
      \<le> unat limit"
    by simp
  from Cons.prems(2) rt have 2: "list_all (row_table_fits tt limit) (m_rowTables ?d)"
    by simp
  from Cons.IH [OF 1 2] obtain ts where
    ts: "snd (fold (InitializeDescriptors_rank cap tt) rs (off + ?size, Some ?d)) =
           Some (?d\<lparr> m_rowTables := ts \<rparr>)"
    and fits: "list_all (row_table_fits tt limit) ts"
    by blast
  have "snd (fold (InitializeDescriptors_rank cap tt) (r # rs) (off, Some d)) =
      Some (d\<lparr> m_rowTables := ts \<rparr>)"
    using ts by (simp add: InitializeDescriptors_rank_def Let_def)
  with fits show ?case by blast
qed

lemma shard_ctor_layout_fits:
  assumes ctor: "Shard_ctor recycler mem tt schema sbs = Some (Inr shard)"
    and cap: "GetCapacityForByteSize sbs schema tt = Some (Inr cap)"
    and nowrap: "unat (DocTableDescriptor_GetBufferSize cap schema)
      + sum_list (map (\<lambda>r. unat (RowTableDescriptor_GetBufferSize cap (GetTotalRowCount tt r) r))
          [0..<Suc c_maxRankValue])
      + 8 < 2 ^ 64"
    and rows: "\<forall>row \<in> set (RowIdSequence (GetDocumentActiveTerm tt) tt).
        unat (GetIndex row) < unat (GetTotalRowCount tt (GetRank row))
        \<and> unat (GetTotalRowCount tt (GetRank row)) * unat (BytesInRow cap (GetRank row)) < 2 ^ 64"
  shows "layout_fits shard"
proof -
  let ?sizes = "map (\<lambda>r. RowTableDescriptor_GetBufferSize cap (GetTotalRowCount tt r) r)
      [0..<Suc c_maxRankValue]"
  let ?doc = "DocTableDescriptor_GetBufferSize cap schema"
  obtain rowId where rowId: "RowIdForActiveDocument tt = Inr rowId"
    using ctor by (cases "RowIdForActiveDocument tt") (simp_all add: Shard_ctor_def)
  define this :: Shard where "this =
     \<lparr> m_docTable = None, m_rowTables = [],
       m_termTable = tt,
       m_documentActiveRowId = rowId,
       m_activeSlice = nullptr,
       m_sliceBuffers = [],
       m_sliceCapacity = cap,
       m_sliceBufferSize = sbs,
       m_docFrequencyTableBuilder = Some \<lparr> terms_recorded = [], documents_entered = 0 \<rparr>,
       m_recycler = recycler,
       slices = Map.empty,
       memory = mem \<rparr>"
  let ?r = "InitializeDescriptors (Some this) cap schema tt"
  from ctor rowId cap have size: "fst ?r \<le> sbs" and shard: "snd ?r = Some shard"
    by (auto simp add: Shard_ctor_def Let_def LogAssertB_def this_def
        split: option.splits if_splits)
  have m: "map unat ?sizes =
      map (\<lambda>r. unat (RowTableDescriptor_GetBufferSize cap (GetTotalRowCount tt r) r))
        [0..<Suc c_maxRankValue]"
    by (simp add: comp_def)
  from nowrap have "unat ?doc + sum_list (map unat ?sizes) < 2 ^ 64"
    unfolding m by simp
  then have tables: "unat (?doc + sum_list ?sizes) = unat ?doc + sum_list (map unat ?sizes)"
    by (rule unat_sum_list_nowrap)
  with nowrap have "unat (?doc + sum_list ?sizes) + unat (8 :: size_t) < 2 ^ LENGTH(64)"
    unfolding m by simp
  then have "unat (?doc + sum_list ?sizes + 8) = unat (?doc + sum_list ?sizes) + unat (8 :: size_t)"
    by (simp only: unat_add_lem [THEN iffD1])
  moreover have "fst ?r = ?doc + sum_list ?sizes + 8"
    by (simp only: InitializeDescriptors_def Let_def fst_conv fold_rank_offset sizeof_ptr_def)
      simp
  ultimately have total: "unat ?doc + sum_list (map unat ?sizes) + 8 \<le> unat sbs"
    using size tables by (simp add: word_le_nat_alt)
  then have big: "8 \<le> sbs"
    by (simp add: word_le_nat_alt)
  then have limit: "unat (sbs - 8) = unat sbs - 8"
    by (simp add: unat_sub)
  let ?this1 = "this\<lparr> m_docTable := Some (DocTableDescriptor_ctor cap schema 0) \<rparr>"
  have "unat (0 + ?doc)
      + sum_list (map (\<lambda>r. unat (RowTableDescriptor_GetBufferSize cap (GetTotalRowCount tt r) r))
          [0..<Suc c_maxRankValue])
      \<le> unat (sbs - 8)"
    using total limit unfolding m by simp
  moreover have "list_all (row_table_fits tt (sbs - 8)) (m_rowTables ?this1)"
    by (simp add: this_def)
  ultimately obtain ts where
    ts: "snd (fold (InitializeDescriptors_rank cap tt) [0..<Suc c_maxRankValue]
                (0 + ?doc, Some ?this1)) = Some (?this1\<lparr> m_rowTables := ts \<rparr>)"
    and fits: "list_all (row_table_fits tt (sbs - 8)) ts"
    using fold_rank_tables [OF _ _ rows, of "0 + ?doc" "[0..<Suc c_maxRankValue]" "sbs - 8" ?this1]
    by blast
  have "snd ?r = Some (?this1\<lparr> m_rowTables := ts \<rparr>)"
    using ts by (simp only: InitializeDescriptors_def Let_def snd_conv option.map)
  with shard have sh: "shard = ?this1\<lparr> m_rowTables := ts \<rparr>"
    by simp
  have doc: "region_below 0 (cap * DocTable_recordSize schema) (sbs - 8)"
    using total limit by (simp add: region_below_def DocTableDescriptor_GetBufferSize_def)
  show ?thesis
    using big fits doc
    by (simp add: layout_fits_def sh this_def GetSlicePtrOffset_def sizeof_ptr_def
        DocTableDescriptor_ctor_def)
qed






section \<open>Adding a posting\<close>

lemma bit_number_less: "bit_number rt docIndex < 8"
proof -
  have "drop_bit (rt_rank rt) docIndex AND 7 \<le> 7"
    by (rule word_and_le1)
  then have "unat (drop_bit (rt_rank rt) docIndex AND 7) \<le> unat (7 :: size_t)"
    by (simp only: word_le_nat_alt)
  then show ?thesis by (simp add: bit_number_def)
qed

lemma SetBit_bit:
  "bit (SetBit rt sliceBuffer row docIndex mem a) i =
     (bit (mem a) i \<or>
      (a = bit_address rt sliceBuffer row docIndex \<and> i = bit_number rt docIndex))"
  using bit_number_less [of rt docIndex]
  by (auto simp add: SetBit_def Let_def bit_simps)

lemma fold_SetBit_bit:
  "m_rowTables (fold (\<lambda>row sh.
           sh\<lparr> memory := SetBit (m_rowTables sh ! GetRank row) sliceBuffer
                             (GetIndex row) index (memory sh) \<rparr>) rows shard) = m_rowTables shard
   \<and> m_termTable (fold (\<lambda>row sh.
           sh\<lparr> memory := SetBit (m_rowTables sh ! GetRank row) sliceBuffer
                             (GetIndex row) index (memory sh) \<rparr>) rows shard) = m_termTable shard
   \<and> bit (memory (fold (\<lambda>row sh.
           sh\<lparr> memory := SetBit (m_rowTables sh ! GetRank row) sliceBuffer
                             (GetIndex row) index (memory sh) \<rparr>) rows shard) a) i =
     (bit (memory shard a) i \<or>
      (a, i) \<in> set (map (\<lambda>row.
          (bit_address (m_rowTables shard ! GetRank row) sliceBuffer (GetIndex row) index,
           bit_number (m_rowTables shard ! GetRank row) index)) rows))"
proof (induction rows arbitrary: shard)
  case Nil
  show ?case by simp
next
  case (Cons row rows)
  show ?case
    by (auto simp add: Cons.IH SetBit_bit)
qed

lemma AddPosting_bit:
  "bit (memory (AddPosting term index sliceBuffer shard) a) i =
     (bit (memory shard a) i \<or> (a, i) \<in> set (posting_bits shard term index sliceBuffer))"
  by (cases "m_docFrequencyTableBuilder shard")
     (simp_all add: AddPosting_def posting_bits_def fold_SetBit_bit Let_def)

lemma AddPosting_tables:
  "m_rowTables (AddPosting term index sliceBuffer shard) = m_rowTables shard
   \<and> m_termTable (AddPosting term index sliceBuffer shard) = m_termTable shard"
  by (cases "m_docFrequencyTableBuilder shard")
     (simp_all add: AddPosting_def fold_SetBit_bit Let_def)

text \<open>
  C10. \<^verbatim>\<open>Shard::AddPosting\<close> only sets bits of the memory that holds the slice buffer:
  after the call a bit is set exactly when it was set before or is one of the bits
  addressed by a row of the term and the column of the DocIndex. So no bit is cleared,
  every addressed bit is set, every other bit is unchanged, and a second call with the
  same term and DocIndex leaves the memory as the first call left it.
\<close>

theorem add_posting_sets_bits:
  assumes "list_all (\<lambda>row. GetRank row < length (m_rowTables shard))
             (RowIdSequence term (m_termTable shard))"
  shows "(\<forall>a i. bit (memory (AddPosting term index sliceBuffer shard) a) i =
            (bit (memory shard a) i
             \<or> (a, i) \<in> set (posting_bits shard term index sliceBuffer)))
       \<and> memory (AddPosting term index sliceBuffer
                   (AddPosting term index sliceBuffer shard)) =
         memory (AddPosting term index sliceBuffer shard)"
proof
  show "\<forall>a i. bit (memory (AddPosting term index sliceBuffer shard) a) i =
            (bit (memory shard a) i
             \<or> (a, i) \<in> set (posting_bits shard term index sliceBuffer))"
    by (simp add: AddPosting_bit)
  have same: "posting_bits (AddPosting term index sliceBuffer shard) term index sliceBuffer =
      posting_bits shard term index sliceBuffer"
    by (simp add: posting_bits_def AddPosting_tables)
  show "memory (AddPosting term index sliceBuffer
                   (AddPosting term index sliceBuffer shard)) =
         memory (AddPosting term index sliceBuffer shard)"
  proof (rule ext, rule bit_eqI)
    fix a i
    show "bit (memory (AddPosting term index sliceBuffer
                   (AddPosting term index sliceBuffer shard)) a) i =
         bit (memory (AddPosting term index sliceBuffer shard) a) i"
      by (simp add: AddPosting_bit same)
  qed
qed


theorem add_posting_sets_bits_witness:
  "posting_bits example_shard example_term 13 65536 = [(67601, 5)]
   \<and> bit (memory (AddPosting example_term 13 65536 example_shard) 67601) 5
   \<and> \<not> bit (memory (AddPosting example_term 13 65536 example_shard) 67601) 4
   \<and> memory (AddPosting example_term 13 65536
               (AddPosting example_term 13 65536 example_shard)) =
     memory (AddPosting example_term 13 65536 example_shard)"
proof -
  have r: "list_all (\<lambda>row. GetRank row < length (m_rowTables example_shard))
             (RowIdSequence example_term (m_termTable example_shard))"
    by (simp add: example_shard_def example_termTable_def RowIdSequence_def)
  have p: "posting_bits example_shard example_term 13 65536 = [(67601, 5)]"
    by (simp add: posting_bits_def example_shard_def example_termTable_def example_term_def
        RowIdSequence_def bit_address_def bit_number_def GetRowOffset_def BytesInRow_def)
  have z: "\<not> bit (memory example_shard 67601) i" for i
    by (simp add: example_shard_def)
  from add_posting_sets_bits [OF r, of 13 65536] p z
  show ?thesis by simp
qed


section \<open>Adding a document\<close>

text \<open>
  The definitions that evaluate a run of the ingestor on the small configuration. The
  operations on memory stay folded.
\<close>

lemmas run_defs =
  Ingestor_Add_def example_ingestor_def example_document_def failing_document_def Let_def
  AddDocument_def AllocateDocument_def example_shard_def nullptr_def CreateNewActiveSlice_def
  Slice_ctor_def GetDocTable_def GetRowTable_def GetSliceCapacity_def GetTermTable_def
  c_maxRankValue_def upt_rec Slice_Initialize_def TryAllocateDocument_at_def
  TryAllocateDocument_def Slice_members_def LogAssertB_def GetSliceBuffer_def
  handle_members_def handle_Activate_def handle_Expire_def CommitDocument_at_def
  TemporaryRecordDocument_def CommitDocument_def ExpireDocument_def DocumentMap_Add_def
  DocumentMap_Find_def Contains_def AddPosting_def RowIdSequence_def example_termTable_def
  example_term_def OnTerm_def OnDocumentEnter_def LogB_def

lemma DocumentMap_Add_fails:
  "DocumentMap_Add handle m = Inl e \<Longrightarrow> m (m_id handle) \<noteq> None"
  by (simp add: DocumentMap_Add_def split: option.splits)

lemma AllocateDocument_id:
  "AllocateDocument newSlice buffer docId shard = (Inr handle, shard') \<Longrightarrow> m_id handle = docId"
  by (auto simp add: AllocateDocument_def LogAssertB_def
      split: prod.splits sum.splits option.splits if_splits)

text \<open>
  C4 as stated fails: only the insertion into the DocumentMap stands inside the
  \<^verbatim>\<open>try\<close> block of \<^verbatim>\<open>Ingestor::Add\<close>. When \<^verbatim>\<open>document.Ingest\<close> throws, the exception
  leaves \<^verbatim>\<open>Add\<close> at once: whatever \<^verbatim>\<open>Expire\<close> would do, the outcome is the same, and the
  document stays allocated and uncommitted in its Slice.
\<close>

theorem add_no_rollback_counterexample:
  "\<forall>expire.
     fst (Ingestor_Add \<lparr> Activate = handle_Activate, Expire = expire \<rparr>
            20480 65536 7 failing_document example_ingestor) =
       Some (RecoverableError ''Ingest failed.'')
     \<and> map (\<lambda>shard. slices shard 20480)
          (m_shards (snd (Ingestor_Add \<lparr> Activate = handle_Activate, Expire = expire \<rparr>
                            20480 65536 7 failing_document example_ingestor))) =
       [Some ((Slice_members 128 65536)
                \<lparr> m_unallocatedCount := 127, m_commitPendingCount := 1 \<rparr>)]
     \<and> snd (Ingestor_Add \<lparr> Activate = handle_Activate, Expire = expire \<rparr>
              20480 65536 7 failing_document example_ingestor) =
       example_ingestor
         \<lparr> m_documentCount := 1, m_histogram := [1],
            m_shards := [snd (AllocateDocument 20480 65536 7 example_shard)] \<rparr>"
  by (simp add: run_defs)

text \<open>
  C4, amended. Once the handle is allocated, a failure of \<^verbatim>\<open>document.Ingest\<close>, of
  \<^verbatim>\<open>Activate\<close> or of \<^verbatim>\<open>CommitDocument\<close> leaves \<^verbatim>\<open>Ingestor::Add\<close> as it is, with no
  rollback. A failure of the insertion into the DocumentMap triggers the rollback through
  \<^verbatim>\<open>handle.Expire()\<close>; an exception of that rollback is logged and swallowed, and the
  failure of the insertion is what \<^verbatim>\<open>Add\<close> throws.
\<close>

theorem add_rolls_back_failed_insertion:
  fixes ing :: Ingestor and document :: IDocument
  defines "shardId \<equiv> GetShard (m_shardDefinition ing) (GetPostingCount document)"
  defines "put \<equiv> \<lambda>shard.
    ing\<lparr> m_documentCount := m_documentCount ing + 1,
         m_histogram := AddDocument (GetPostingCount document) (m_histogram ing),
         m_shards := (m_shards ing)[shardId := shard] \<rparr>"
  assumes valid: "shardId < length (m_shards ing)"
    and alloc: "AllocateDocument newSlice buffer docId (m_shards ing ! shardId) =
                  (Inr handle, shard1)"
  shows "(\<forall>e shard'. Ingest document handle shard1 = (Some e, shard') \<longrightarrow>
            Ingestor_Add members newSlice buffer docId document ing = (Some e, put shard'))
       \<and> (\<forall>shard2 e shard'. Ingest document handle shard1 = (None, shard2)
              \<and> Activate members handle shard2 = (Some e, shard') \<longrightarrow>
            Ingestor_Add members newSlice buffer docId document ing = (Some e, put shard'))
       \<and> (\<forall>shard2 shard3 e shard'. Ingest document handle shard1 = (None, shard2)
              \<and> Activate members handle shard2 = (None, shard3)
              \<and> CommitDocument_at (m_slice handle) shard3 = (Inl e, shard') \<longrightarrow>
            Ingestor_Add members newSlice buffer docId document ing = (Some e, put shard'))
       \<and> (\<forall>shard2 shard3 full shard4 e x shard5. Ingest document handle shard1 = (None, shard2)
              \<and> Activate members handle shard2 = (None, shard3)
              \<and> CommitDocument_at (m_slice handle) shard3 = (Inr full, shard4)
              \<and> DocumentMap_Add handle (m_documentMap ing) = Inl e
              \<and> Expire members handle shard4 = (x, shard5) \<longrightarrow>
            Ingestor_Add members newSlice buffer docId document ing =
              (Some e,
               if x = None then put shard5
               else LogB ''Ingestor::Add''
                      ''Error while cleaning up after AddDocument operation failed.''
                      (put shard5)))"
  using valid alloc
  by (auto simp add: Ingestor_Add_def Let_def shardId_def put_def)

theorem add_rolls_back_failed_insertion_witness:
  "fst (Ingestor_Add handle_members 20480 65536 7 example_document
         (snd (Ingestor_Add handle_members 20480 65536 7 example_document example_ingestor))) =
     Some (RecoverableError ''DocumentMap::Add: duplicate DocId.'')
   \<and> log_entries (snd (Ingestor_Add handle_members 20480 65536 7 example_document
         (snd (Ingestor_Add handle_members 20480 65536 7 example_document example_ingestor)))) = []"
proof -
  define ing1 where
    "ing1 = snd (Ingestor_Add handle_members 20480 65536 7 example_document example_ingestor)"
  define h1 where "h1 = \<lparr> m_slice = 20480, m_index = 1, m_id = (7 :: DocId) \<rparr>"
  define shA where "shA = snd (AllocateDocument 20480 65536 7 (m_shards ing1 ! 0))"
  define shB where "shB = snd (Ingest example_document h1 shA)"
  define shC where "shC = snd (Activate handle_members h1 shB)"
  define shD where "shD = snd (CommitDocument_at 20480 shC)"
  define shE where "shE = snd (Expire handle_members h1 shD)"
  have sid: "GetShard (m_shardDefinition ing1) (GetPostingCount example_document) = 0"
    by (simp add: ing1_def run_defs)
  have valid: "GetShard (m_shardDefinition ing1) (GetPostingCount example_document)
      < length (m_shards ing1)"
    by (simp add: ing1_def run_defs)
  have "fst (AllocateDocument 20480 65536 7 (m_shards ing1 ! 0)) = Inr h1"
    by (simp add: ing1_def h1_def run_defs)
  then have alloc: "AllocateDocument 20480 65536 7
      (m_shards ing1 ! GetShard (m_shardDefinition ing1) (GetPostingCount example_document)) =
      (Inr h1, shA)"
    by (simp add: sid shA_def prod_eq_iff)
  have "fst (Ingest example_document h1 shA) = None"
    by (simp add: shA_def ing1_def h1_def run_defs)
  then have ingest: "Ingest example_document h1 shA = (None, shB)"
    by (simp add: shB_def prod_eq_iff)
  have "fst (Activate handle_members h1 shB) = None"
    by (simp add: shB_def shA_def ing1_def h1_def run_defs)
  then have activate: "Activate handle_members h1 shB = (None, shC)"
    by (simp add: shC_def prod_eq_iff)
  have "fst (CommitDocument_at 20480 shC) = Inr False"
    by (simp add: shC_def shB_def shA_def ing1_def h1_def run_defs)
  then have commit: "CommitDocument_at (m_slice h1) shC = (Inr False, shD)"
    by (simp add: shD_def h1_def prod_eq_iff)
  have insert: "DocumentMap_Add h1 (m_documentMap ing1) =
      Inl (RecoverableError ''DocumentMap::Add: duplicate DocId.'')"
    by (simp add: ing1_def h1_def run_defs)
  have "fst (Expire handle_members h1 shD) = None"
    by (simp add: shD_def shC_def shB_def shA_def ing1_def h1_def run_defs)
  then have expire: "Expire handle_members h1 shD = (None, shE)"
    by (simp add: shE_def prod_eq_iff)
  have quiet: "log_entries ing1 = []"
    by (simp add: ing1_def run_defs)
  note rule = add_rolls_back_failed_insertion [OF valid alloc, where members = handle_members,
      THEN conjunct2, THEN conjunct2, THEN conjunct2, rule_format]
  have "Ingestor_Add handle_members 20480 65536 7 example_document ing1 =
      (Some (RecoverableError ''DocumentMap::Add: duplicate DocId.''),
       ing1\<lparr> m_documentCount := m_documentCount ing1 + 1,
             m_histogram := AddDocument (GetPostingCount example_document) (m_histogram ing1),
             m_shards := (m_shards ing1)
               [GetShard (m_shardDefinition ing1) (GetPostingCount example_document) := shE] \<rparr>)"
    using rule [OF conjI [OF ingest conjI [OF activate conjI [OF commit conjI [OF insert expire]]]]]
    by simp
  then show ?thesis
    by (simp add: ing1_def [symmetric] quiet)
qed

text \<open>
  C9 as stated fails in its last clause. The rollback through \<^verbatim>\<open>Expire\<close> happens when the
  insertion into the DocumentMap fails, that is for a DocId the map already holds: after
  adding a document with DocId 7 twice, the second \<^verbatim>\<open>Add\<close> has failed and has been rolled
  back, the document count is 2, and \<^verbatim>\<open>Contains(7)\<close> is true.
\<close>

theorem add_duplicate_contains_counterexample:
  "fst (Ingestor_Add handle_members 20480 65536 7 example_document
         (snd (Ingestor_Add handle_members 20480 65536 7 example_document example_ingestor))) =
     Some (RecoverableError ''DocumentMap::Add: duplicate DocId.'')
   \<and> map (\<lambda>shard. map_option m_expiredCount (slices shard 20480))
        (m_shards (snd (Ingestor_Add handle_members 20480 65536 7 example_document
         (snd (Ingestor_Add handle_members 20480 65536 7 example_document example_ingestor))))) =
     [Some 1]
   \<and> m_documentCount (snd (Ingestor_Add handle_members 20480 65536 7 example_document
         (snd (Ingestor_Add handle_members 20480 65536 7 example_document example_ingestor)))) = 2
   \<and> Contains 7 (snd (Ingestor_Add handle_members 20480 65536 7 example_document
         (snd (Ingestor_Add handle_members 20480 65536 7 example_document example_ingestor))))"
  by (simp add: run_defs)


text \<open>
  C9, amended. \<^verbatim>\<open>Ingestor::Add\<close> increments the document count and adds the posting count
  of the document to the histogram before it allocates a handle, and both increments
  persist whatever happens next. A failed \<^verbatim>\<open>Add\<close> leaves the DocumentMap unchanged, so
  \<^verbatim>\<open>Contains(id)\<close> is what it was before the call; when the failure is that of the
  insertion, which is the one rolled back through \<^verbatim>\<open>Expire\<close>, \<^verbatim>\<open>Contains(id)\<close> is true
  before and after.
\<close>

theorem add_counts_failed_document:
  fixes ing :: Ingestor and document :: IDocument and members :: DocumentHandle_members
    and newSlice buffer :: ptr and docId :: DocId
  defines "result \<equiv> Ingestor_Add members newSlice buffer docId document ing"
  defines "shardId \<equiv> GetShard (m_shardDefinition ing) (GetPostingCount document)"
  shows "m_documentCount (snd result) = m_documentCount ing + 1
   \<and> m_histogram (snd result) = m_histogram ing @ [GetPostingCount document]
   \<and> (fst result \<noteq> None \<longrightarrow>
        m_documentMap (snd result) = m_documentMap ing
        \<and> Contains docId (snd result) = Contains docId ing)
   \<and> (\<forall>handle shard1 shard2 shard3 full shard4 e.
        shardId < length (m_shards ing)
        \<and> AllocateDocument newSlice buffer docId (m_shards ing ! shardId) = (Inr handle, shard1)
        \<and> Ingest document handle shard1 = (None, shard2)
        \<and> Activate members handle shard2 = (None, shard3)
        \<and> CommitDocument_at (m_slice handle) shard3 = (Inr full, shard4)
        \<and> DocumentMap_Add handle (m_documentMap ing) = Inl e \<longrightarrow>
        fst result = Some e \<and> Contains docId ing \<and> Contains docId (snd result))"
proof (intro conjI)
  show "m_documentCount (snd result) = m_documentCount ing + 1"
    unfolding result_def
    by (auto simp add: Ingestor_Add_def Let_def LogB_def
        split: prod.splits sum.splits option.splits)
  show "m_histogram (snd result) = m_histogram ing @ [GetPostingCount document]"
    unfolding result_def
    by (auto simp add: Ingestor_Add_def Let_def AddDocument_def LogB_def
        split: prod.splits sum.splits option.splits)
  show unchanged: "fst result \<noteq> None \<longrightarrow>
        m_documentMap (snd result) = m_documentMap ing
        \<and> Contains docId (snd result) = Contains docId ing"
    unfolding result_def
    by (auto simp add: Ingestor_Add_def Let_def LogB_def Contains_def
        split: prod.splits sum.splits option.splits)
  show "\<forall>handle shard1 shard2 shard3 full shard4 e.
        shardId < length (m_shards ing)
        \<and> AllocateDocument newSlice buffer docId (m_shards ing ! shardId) = (Inr handle, shard1)
        \<and> Ingest document handle shard1 = (None, shard2)
        \<and> Activate members handle shard2 = (None, shard3)
        \<and> CommitDocument_at (m_slice handle) shard3 = (Inr full, shard4)
        \<and> DocumentMap_Add handle (m_documentMap ing) = Inl e \<longrightarrow>
        fst result = Some e \<and> Contains docId ing \<and> Contains docId (snd result)"
  proof (intro allI impI)
    fix handle shard1 shard2 shard3 full shard4 e
    assume a: "shardId < length (m_shards ing)
        \<and> AllocateDocument newSlice buffer docId (m_shards ing ! shardId) = (Inr handle, shard1)
        \<and> Ingest document handle shard1 = (None, shard2)
        \<and> Activate members handle shard2 = (None, shard3)
        \<and> CommitDocument_at (m_slice handle) shard3 = (Inr full, shard4)
        \<and> DocumentMap_Add handle (m_documentMap ing) = Inl e"
    then have failed: "fst result = Some e"
      unfolding result_def shardId_def
      by (auto simp add: Ingestor_Add_def Let_def split: prod.splits option.splits)
    from a have "m_id handle = docId" "m_documentMap ing (m_id handle) \<noteq> None"
      by (auto dest: AllocateDocument_id DocumentMap_Add_fails)
    then have before: "Contains docId ing"
      by (simp add: Contains_def DocumentMap_Find_def)
    with failed unchanged show "fst result = Some e \<and> Contains docId ing \<and> Contains docId (snd result)"
      by simp
  qed
qed

theorem add_counts_failed_document_witness:
  "m_documentCount (snd (Ingestor_Add handle_members 20480 65536 7 failing_document
                           example_ingestor)) = 1
   \<and> m_histogram (snd (Ingestor_Add handle_members 20480 65536 7 failing_document
                          example_ingestor)) = [1]
   \<and> fst (Ingestor_Add handle_members 20480 65536 7 failing_document example_ingestor) \<noteq> None
   \<and> \<not> Contains 7 (snd (Ingestor_Add handle_members 20480 65536 7 failing_document
                            example_ingestor))"
proof -
  have f: "fst (Ingestor_Add handle_members 20480 65536 7 failing_document example_ingestor)
      \<noteq> None"
    by (simp add: run_defs)
  have c: "\<not> Contains 7 example_ingestor"
    by (simp add: Contains_def DocumentMap_Find_def example_ingestor_def)
  from add_counts_failed_document
    [of handle_members 20480 65536 7 failing_document example_ingestor] f c
  show ?thesis
    by (simp add: example_ingestor_def failing_document_def)
qed


section \<open>The position of a parse error\<close>

text \<open>
  The errors of \<^verbatim>\<open>GetChar\<close> and \<^verbatim>\<open>ExpectDelimeter\<close> carry \<^verbatim>\<open>m_currentPosition\<close>, the offset
  at which the parser stands when it throws; \<^verbatim>\<open>ParseToken\<close> passes the same member in its
  own error. \<^verbatim>\<open>GetWithEscape\<close> passes the offending character instead.
\<close>

lemma GetChar_error_position:
  assumes "GetChar p = (Inl e, p')"
  shows "e = ParseError ''Attempting to read past NULL byte'' (m_currentPosition p')"
  using assms by (auto simp add: GetChar_def Let_def split: if_splits)

lemma ExpectDelimeter_error_position:
  assumes "ExpectDelimeter c p = (Inl e, p')"
  shows "\<exists>message. e = ParseError message (m_currentPosition p')"
  using assms
  by (auto simp add: ExpectDelimeter_def Let_def split: if_splits prod.splits sum.splits
      dest: GetChar_error_position)

lemma GetWithEscape_error_position:
  assumes "GetWithEscape p = (Inl e, p')"
  shows "e = ParseError ''Attempting to read past NULL byte'' (m_currentPosition p')
       \<or> e = ParseError ''Bad escape char'' (size_t_of_char (m_nextChar p'))"
  using assms
  by (auto simp add: GetWithEscape_def Let_def PeekChar_def
      split: if_splits prod.splits sum.splits list.splits
      dest: GetChar_error_position)

text \<open>
  C8 does not hold of the code: on the query \<^verbatim>\<open>\a\<close> (a backslash and the letter a) the
  parser stops at offset 1, and the \<^verbatim>\<open>ParseError\<close> it throws has the position 97, the
  character code of the letter. \<^verbatim>\<open>GetWithEscape\<close> calls
  \<^verbatim>\<open>ParseError("Bad escape char", c)\<close> with the character where the other three
  \<^verbatim>\<open>throw\<close> sites pass \<^verbatim>\<open>m_currentPosition\<close>.
\<close>

theorem bad_escape_position_is_character:
  "\<forall>n. Parse (Suc (Suc (Suc (Suc n)))) [CHR 0x5C, CHR ''a''] =
     Some (Inl (ParseError ''Bad escape char'' 97),
           \<lparr> m_input = [], m_currentPosition = 1, m_haveChar = True,
              m_nextChar = CHR ''a'' \<rparr>)"
  by (simp add: Parse_def QueryParser_ctor_def and_then_def ParseTerm_def ParseToken_def
      PeekChar_def GetChar_def GetWithEscape_def isspace_def strchr_def c_endOfToken_def
      legalEscapes_def size_t_of_char_def Let_def)


end
